theory Spec2Isabelle
  imports Main "HOL-Library.AList" "HOL-Library.Word"
begin

section \<open>JavaScript values and the platform\<close>

text \<open>
  The program is TypeScript running in a browser. Values that come out of
  \<^verbatim>\<open>JSON.parse\<close>, or that the code builds as object literals, are modelled by
  \<open>jsval\<close>. Numbers are the integers (the code only handles millisecond time stamps);
  the result of a numeric coercion is a \<open>jsnumber\<close>, which adds \<^verbatim>\<open>NaN\<close>.
  Strings are Isabelle strings, so a code unit is at most 255.
\<close>

datatype jsval =
    JUndefined
  | JNull
  | JBool bool
  | JNum int
  | JStr string
  | JArr "jsval list"
  | JObj "(string \<times> jsval) list"

datatype jsnumber = NaN | Num int

text \<open>A parsed URL: its origin, its path and the name-value list behind \<^verbatim>\<open>searchParams\<close>.\<close>

record url =
  origin :: string
  pathname :: string
  searchParams :: "(string \<times> string) list"

text \<open>
  Functions of the platform that the source calls and does not define. \<open>None\<close> stands
  for the exception the call throws: \<^verbatim>\<open>SyntaxError\<close> for \<^verbatim>\<open>JSON.parse\<close>,
  \<^verbatim>\<open>TypeError\<close> for \<^verbatim>\<open>new URL(input, base)\<close> and for a numeric coercion whose
  \<^verbatim>\<open>ToPrimitive\<close> step fails. \<open>ToNumber_other\<close> is the coercion of strings, arrays and
  objects; the other cases are defined below.
\<close>

record platform =
  JSON_parse :: "string \<Rightarrow> jsval option"
  JSON_stringify :: "jsval \<Rightarrow> string"
  ToNumber_other :: "jsval \<Rightarrow> jsnumber option"
  URL_parse :: "string \<Rightarrow> string \<Rightarrow> url option"

text \<open>Exceptions the model tells apart.\<close>

datatype js_error = TypeError | SyntaxError | FetchRejected | ExchangeFailed nat

text \<open>Truthiness, as \<^verbatim>\<open>if (x)\<close> and \<^verbatim>\<open>!x\<close> see it.\<close>

fun truthy :: "jsval \<Rightarrow> bool" where
  "truthy JUndefined = False"
| "truthy JNull = False"
| "truthy (JBool b) = b"
| "truthy (JNum n) = (n \<noteq> 0)"
| "truthy (JStr s) = (s \<noteq> [])"
| "truthy (JArr xs) = True"
| "truthy (JObj kvs) = True"

text \<open>
  Property read \<^verbatim>\<open>v.k\<close>: a \<^verbatim>\<open>TypeError\<close> (\<open>None\<close>) on \<^verbatim>\<open>null\<close> and
  \<^verbatim>\<open>undefined\<close>, the stored value on an object that has the key, \<^verbatim>\<open>undefined\<close>
  otherwise. The keys the code reads (\<^verbatim>\<open>state\<close>, \<^verbatim>\<open>codeVerifier\<close>, \<^verbatim>\<open>createdAt\<close>,
  \<^verbatim>\<open>user\<close>, \<^verbatim>\<open>accessToken\<close>, \<^verbatim>\<open>access_token\<close>, \<^verbatim>\<open>id\<close>, \<^verbatim>\<open>email\<close>, ...) are not
  properties of any built-in prototype.
\<close>

fun get_prop :: "jsval \<Rightarrow> string \<Rightarrow> jsval option" where
  "get_prop JUndefined k = None"
| "get_prop JNull k = None"
| "get_prop (JObj kvs) k = (case map_of kvs k of None \<Rightarrow> Some JUndefined | Some v \<Rightarrow> Some v)"
| "get_prop v k = Some JUndefined"

text \<open>An optional string argument (\<^verbatim>\<open>x?: string\<close>) in a condition.\<close>

fun truthy_opt :: "string option \<Rightarrow> bool" where
  "truthy_opt None = False"
| "truthy_opt (Some s) = (s \<noteq> [])"

subsection \<open>URLSearchParams\<close>

text \<open>
  \<^verbatim>\<open>set\<close> overwrites the first pair of that name and removes the others, or appends;
  \<^verbatim>\<open>get\<close> reads the first pair of that name.
\<close>

fun searchParams_set :: "string \<Rightarrow> string \<Rightarrow> (string \<times> string) list \<Rightarrow> (string \<times> string) list" where
  "searchParams_set k v [] = [(k, v)]"
| "searchParams_set k v (p # ps) =
     (if fst p = k then (k, v) # filter (\<lambda>q. fst q \<noteq> k) ps
      else p # searchParams_set k v ps)"

definition searchParams_get :: "string \<Rightarrow> (string \<times> string) list \<Rightarrow> string option" where
  "searchParams_get k ps = map_of ps k"

definition searchParams_has :: "string \<Rightarrow> (string \<times> string) list \<Rightarrow> bool" where
  "searchParams_has k ps = (map_of ps k \<noteq> None)"

definition url_set :: "string \<Rightarrow> string \<Rightarrow> url \<Rightarrow> url" where
  "url_set k v u = u\<lparr>searchParams := searchParams_set k v (searchParams u)\<rparr>"

section \<open>Types (types.ts)\<close>

record AuthKitConfig =
  clientId :: string
  redirectUri :: string
  apiBaseUrl :: string
  devMode :: bool
  autoCallback :: bool

record PKCEBundle =
  state :: string
  codeVerifier :: string
  codeChallenge :: string

datatype screen_hint = sign_in | sign_up

fun screen_hint_str :: "screen_hint \<Rightarrow> string" where
  "screen_hint_str sign_in = ''sign-in''"
| "screen_hint_str sign_up = ''sign-up''"

section \<open>URL building (urls.ts)\<close>

record authorize_params =
  ap_codeChallenge :: string
  ap_state :: string
  ap_screenHint :: "screen_hint option"
  ap_loginHint :: "string option"
  ap_organizationId :: "string option"
  ap_invitationToken :: "string option"

text \<open>
  \<^verbatim>\<open>if (x) url.searchParams.set(name, x)\<close> for an optional string \<open>x\<close>.
\<close>

definition set_if_truthy :: "string \<Rightarrow> string option \<Rightarrow> url \<Rightarrow> url" where
  "set_if_truthy k x u =
     (case x of None \<Rightarrow> u | Some v \<Rightarrow> if v = [] then u else url_set k v u)"

text \<open>
  The function returns \<^verbatim>\<open>url.toString()\<close>; the model returns the URL that string
  denotes. \<open>None\<close> is the \<^verbatim>\<open>TypeError\<close> of \<^verbatim>\<open>new URL\<close> on a base that is no URL.
\<close>

definition createAuthorizeUrl :: "platform \<Rightarrow> AuthKitConfig \<Rightarrow> authorize_params \<Rightarrow> url option" where
  "createAuthorizeUrl P config params =
     (case URL_parse P ''/user_management/authorize'' (apiBaseUrl config) of
        None \<Rightarrow> None
      | Some url \<Rightarrow>
          Some (set_if_truthy ''invitation_token'' (ap_invitationToken params)
               (set_if_truthy ''organization_id'' (ap_organizationId params)
               (set_if_truthy ''login_hint'' (ap_loginHint params)
               (set_if_truthy ''screen_hint'' (map_option screen_hint_str (ap_screenHint params))
               (url_set ''state'' (ap_state params)
               (url_set ''code_challenge_method'' ''S256''
               (url_set ''code_challenge'' (ap_codeChallenge params)
               (url_set ''response_type'' ''code''
               (url_set ''redirect_uri'' (redirectUri config)
               (url_set ''client_id'' (clientId config) url)))))))))))"

definition createLogoutUrl :: "platform \<Rightarrow> AuthKitConfig \<Rightarrow> string \<Rightarrow> string option \<Rightarrow> url option" where
  "createLogoutUrl P config sessionId returnTo =
     (case URL_parse P ''/user_management/sessions/logout'' (apiBaseUrl config) of
        None \<Rightarrow> None
      | Some url \<Rightarrow> Some (set_if_truthy ''return_to'' returnTo (url_set ''session_id'' sessionId url)))"

section \<open>The browser\<close>

text \<open>
  What the code reads and writes in the page: the two storage areas (a list of key-value
  pairs each), the current URL and the number of entries in the session history, and
  three logs that only grow: the events dispatched on the document, the messages of
  \<^verbatim>\<open>console.error\<close>, and the requests handed to \<^verbatim>\<open>fetch\<close>. Storage is taken to be
  available and never full.
\<close>

type_synonym storage = "(string \<times> string) list"

definition getItem :: "storage \<Rightarrow> string \<Rightarrow> string option" where
  "getItem st k = map_of st k"

definition setItem :: "string \<Rightarrow> string \<Rightarrow> storage \<Rightarrow> storage" where
  "setItem k v st = AList.update k v st"

definition removeItem :: "string \<Rightarrow> storage \<Rightarrow> storage" where
  "removeItem k st = AList.delete k st"

text \<open>A request: the URL, and the form body as name-value pairs before their coercion to strings.\<close>

record request =
  req_url :: url
  req_method :: string
  req_body :: "(string \<times> jsval) list"

record browser =
  sessionStorage :: storage
  localStorage :: storage
  location :: url
  history_length :: nat
  dispatched :: "(string \<times> jsval) list"
  console_errors :: "string list"
  fetched :: "request list"

section \<open>Proof material (pkce.ts)\<close>

definition PKCE_STORAGE_KEY :: string where
  "PKCE_STORAGE_KEY = ''authkit:pkce''"

definition PKCE_MAX_AGE_MS :: int where
  "PKCE_MAX_AGE_MS = 10 * 60 * 1000"

text \<open>Numeric coercion, subtraction and comparison; \<^verbatim>\<open>NaN\<close> compares false.\<close>

fun ToNumber :: "platform \<Rightarrow> jsval \<Rightarrow> jsnumber option" where
  "ToNumber P JUndefined = Some NaN"
| "ToNumber P JNull = Some (Num 0)"
| "ToNumber P (JBool b) = Some (Num (if b then 1 else 0))"
| "ToNumber P (JNum n) = Some (Num n)"
| "ToNumber P v = ToNumber_other P v"

fun js_minus :: "jsnumber \<Rightarrow> jsnumber \<Rightarrow> jsnumber" where
  "js_minus (Num a) (Num b) = Num (a - b)"
| "js_minus a b = NaN"

fun js_greater :: "jsnumber \<Rightarrow> int \<Rightarrow> bool" where
  "js_greater (Num a) b = (a > b)"
| "js_greater NaN b = False"

definition clearPkce :: "browser \<Rightarrow> browser" where
  "clearPkce B = B\<lparr>sessionStorage := removeItem PKCE_STORAGE_KEY (sessionStorage B)\<rparr>"

text \<open>The object \<open>storePkce\<close> serialises; \<open>now\<close> is the value of \<^verbatim>\<open>Date.now()\<close>.\<close>

definition stored_proof :: "PKCEBundle \<Rightarrow> int \<Rightarrow> jsval" where
  "stored_proof bundle now =
     JObj [(''state'', JStr (state bundle)), (''codeVerifier'', JStr (codeVerifier bundle)),
           (''createdAt'', JNum now)]"

definition storePkce :: "platform \<Rightarrow> int \<Rightarrow> PKCEBundle \<Rightarrow> browser \<Rightarrow> browser" where
  "storePkce P now bundle B =
     B\<lparr>sessionStorage :=
         setItem PKCE_STORAGE_KEY (JSON_stringify P (stored_proof bundle now)) (sessionStorage B)\<rparr>"

text \<open>
  \<open>retrievePkce\<close> returns the object \<^verbatim>\<open>{state, codeVerifier}\<close> as a pair, or \<open>None\<close> for
  \<^verbatim>\<open>null\<close>, and the browser as it leaves it. Every exception inside the
  \<^verbatim>\<open>try\<close> (a failed parse, a property read on \<^verbatim>\<open>null\<close>, a failed coercion) ends in
  \<^verbatim>\<open>return null\<close> of the \<^verbatim>\<open>catch\<close>.
\<close>

definition retrievePkce :: "platform \<Rightarrow> int \<Rightarrow> browser \<Rightarrow> (jsval \<times> jsval) option \<times> browser" where
  "retrievePkce P now B =
     (case getItem (sessionStorage B) PKCE_STORAGE_KEY of
        None \<Rightarrow> (None, B)
      | Some raw \<Rightarrow>
          if raw = [] then (None, B)
          else
            (case JSON_parse P raw of
               None \<Rightarrow> (None, B)
             | Some data \<Rightarrow>
                 (case get_prop data ''state'' of
                    None \<Rightarrow> (None, B)
                  | Some st \<Rightarrow>
                      if \<not> truthy st then (None, B)
                      else
                        (case get_prop data ''codeVerifier'' of
                           None \<Rightarrow> (None, B)
                         | Some cv \<Rightarrow>
                             if \<not> truthy cv then (None, B)
                             else
                               (case get_prop data ''createdAt'' of
                                  None \<Rightarrow> (None, B)
                                | Some ca \<Rightarrow>
                                    (case ToNumber P ca of
                                       None \<Rightarrow> (None, B)
                                     | Some n \<Rightarrow>
                                         if js_greater (js_minus (Num now) n) PKCE_MAX_AGE_MS
                                         then (None, clearPkce B)
                                         else (Some (st, cv), B)))))))"

subsection \<open>Base64 of the platform and of RFC 4648\<close>

text \<open>
  \<^verbatim>\<open>btoa\<close> and \<^verbatim>\<open>atob\<close> are functions of the platform, modelled from the HTML
  standard: \<^verbatim>\<open>btoa\<close> is the base64 encoding with padding of a string of code units
  below 256; \<^verbatim>\<open>atob\<close> is the forgiving base64 decoding, which drops ASCII whitespace,
  accepts a padded input whose length is a multiple of four, and fails (\<open>None\<close>, for the
  \<^verbatim>\<open>InvalidCharacterError\<close>) on a length of 1 modulo 4 and on any other character.
  Three bytes make four groups of six bits, and back.
\<close>

definition base64_alphabet :: string where
  "base64_alphabet = ''ABCDEFGHIJKLMNOPQRSTUVWXYZabcdefghijklmnopqrstuvwxyz0123456789+/''"

definition base64_char :: "nat \<Rightarrow> char" where
  "base64_char n = base64_alphabet ! (n mod 64)"

fun index_of :: "char \<Rightarrow> string \<Rightarrow> nat option" where
  "index_of c [] = None"
| "index_of c (d # ds) = (if c = d then Some 0 else map_option Suc (index_of c ds))"

definition base64_index :: "char \<Rightarrow> nat option" where
  "base64_index c = index_of c base64_alphabet"

fun sextets :: "nat list \<Rightarrow> nat list" where
  "sextets (a # b # c # rest) =
     [a div 4, (a mod 4) * 16 + b div 16, (b mod 16) * 4 + c div 64, c mod 64] @ sextets rest"
| "sextets [a, b] = [a div 4, (a mod 4) * 16 + b div 16, (b mod 16) * 4]"
| "sextets [a] = [a div 4, (a mod 4) * 16]"
| "sextets [] = []"

fun octets :: "nat list \<Rightarrow> nat list" where
  "octets (w # x # y # z # rest) =
     [w * 4 + x div 16, (x mod 16) * 16 + y div 4, (y mod 4) * 64 + z] @ octets rest"
| "octets [w, x, y] = [w * 4 + x div 16, (x mod 16) * 16 + y div 4]"
| "octets [w, x] = [w * 4 + x div 16]"
| "octets ws = []"

definition btoa :: "string \<Rightarrow> string" where
  "btoa s = map base64_char (sextets (map of_char s))
            @ replicate ((3 - length s mod 3) mod 3) (CHR ''='')"

definition ascii_whitespace :: "char \<Rightarrow> bool" where
  "ascii_whitespace c =
     (c = CHR 0x09 \<or> c = CHR 0x0A \<or> c = CHR 0x0C \<or> c = CHR 0x0D \<or> c = CHR '' '')"

fun remove_padding :: "string \<Rightarrow> string" where
  "remove_padding s =
     (case rev s of
        c1 # c2 # r \<Rightarrow>
          if c1 = CHR ''='' \<and> c2 = CHR ''='' then rev r
          else if c1 = CHR ''='' then rev (c2 # r) else s
      | [c1] \<Rightarrow> if c1 = CHR ''='' then [] else s
      | [] \<Rightarrow> s)"

definition atob :: "string \<Rightarrow> string option" where
  "atob input =
     (let data = filter (\<lambda>c. \<not> ascii_whitespace c) input;
          data = (if length data mod 4 = 0 then remove_padding data else data)
      in if length data mod 4 = 1 then None
         else (case those (map base64_index data) of
                 None \<Rightarrow> None
               | Some ws \<Rightarrow> Some (map char_of (octets ws))))"

text \<open>
  The encoding the specification names: base64url of RFC 4648, section 5, without
  padding. It has its own alphabet and writes no \<^verbatim>\<open>=\<close>.
\<close>

definition base64url_alphabet :: string where
  "base64url_alphabet = ''ABCDEFGHIJKLMNOPQRSTUVWXYZabcdefghijklmnopqrstuvwxyz0123456789-_''"

definition base64url_char :: "nat \<Rightarrow> char" where
  "base64url_char n = base64url_alphabet ! (n mod 64)"

definition base64url_nopad :: "8 word list \<Rightarrow> string" where
  "base64url_nopad bytes = map base64url_char (sextets (map unat bytes))"

text \<open>The bytes of a string of code units below 256, one byte each.\<close>

definition binary_bytes :: "string \<Rightarrow> 8 word list" where
  "binary_bytes s = map (\<lambda>c. of_nat (of_char c)) s"

text \<open>\<^verbatim>\<open>s.replace(/a/g, "b")\<close> for single characters, and \<^verbatim>\<open>s.replace(/=+$/, "")\<close>.\<close>

definition replace_char :: "char \<Rightarrow> char \<Rightarrow> string \<Rightarrow> string" where
  "replace_char a b s = map (\<lambda>c. if c = a then b else c) s"

definition strip_trailing_equals :: "string \<Rightarrow> string" where
  "strip_trailing_equals s = rev (dropWhile (\<lambda>c. c = CHR ''='') (rev s))"

text \<open>
  The two replacements in one step, character by character: from the base64 alphabet to
  the URL-safe one (as \<open>base64UrlEncode\<close> does) and back (as \<open>decodeJwtClaims\<close> does).
\<close>

definition to_url_char :: "char \<Rightarrow> char" where
  "to_url_char c = (if c = CHR ''+'' then CHR ''-'' else if c = CHR ''/'' then CHR ''_'' else c)"

definition from_url_char :: "char \<Rightarrow> char" where
  "from_url_char c = (if c = CHR ''-'' then CHR ''+'' else if c = CHR ''_'' then CHR ''/'' else c)"

text \<open>\<^verbatim>\<open>s.replace(/-/g, "+").replace(/_/g, "/")\<close>.\<close>

definition from_url_alphabet :: "string \<Rightarrow> string" where
  "from_url_alphabet s = replace_char (CHR ''_'') (CHR ''/'') (replace_char (CHR ''-'') (CHR ''+'') s)"


text \<open>\<^verbatim>\<open>s.split(sep)\<close> for a separator of one character.\<close>

fun split_on :: "char \<Rightarrow> string \<Rightarrow> string list" where
  "split_on sep [] = [[]]"
| "split_on sep (c # cs) =
     (if c = sep then [] # split_on sep cs
      else (case split_on sep cs of [] \<Rightarrow> [[c]] | p # ps \<Rightarrow> (c # p) # ps))"

subsection \<open>Creating a bundle\<close>

text \<open>
  The Web Crypto interface: the bytes the random source will deliver, in order, and the
  SHA-256 digest. \<open>getRandomValues\<close> fills an array of the given length and uses the
  bytes up. Where \<^verbatim>\<open>crypto\<close> is missing (\<open>None\<close>) the function throws.
\<close>

record crypto =
  entropy :: "nat \<Rightarrow> 8 word"
  digest_SHA256 :: "8 word list \<Rightarrow> 8 word list"

definition getRandomValues :: "nat \<Rightarrow> crypto \<Rightarrow> 8 word list \<times> crypto" where
  "getRandomValues n C = (map (entropy C) [0..<n], C\<lparr>entropy := (\<lambda>i. entropy C (i + n))\<rparr>)"

definition randomString_chars :: string where
  "randomString_chars = ''ABCDEFGHIJKLMNOPQRSTUVWXYZabcdefghijklmnopqrstuvwxyz0123456789-._~''"

definition randomString :: "nat \<Rightarrow> crypto \<Rightarrow> string \<times> crypto" where
  "randomString len C =
     (case getRandomValues len C of
        (random, C') \<Rightarrow>
          (map (\<lambda>b. randomString_chars ! (unat b mod length randomString_chars)) random, C'))"

definition fromCharCode :: "8 word \<Rightarrow> char" where
  "fromCharCode b = char_of (unat b)"

definition base64UrlEncode :: "8 word list \<Rightarrow> string" where
  "base64UrlEncode bytes =
     (let binary = map fromCharCode bytes
      in strip_trailing_equals
           (replace_char (CHR ''/'') (CHR ''_'')
             (replace_char (CHR ''+'') (CHR ''-'') (btoa binary))))"

text \<open>\<^verbatim>\<open>new TextEncoder().encode(s)\<close>: UTF-8, one byte below 128 and two bytes from there on.\<close>

definition TextEncoder_encode :: "string \<Rightarrow> 8 word list" where
  "TextEncoder_encode s =
     concat (map (\<lambda>c. if (of_char c :: nat) < 128 then [of_nat (of_char c)]
                       else [of_nat (192 + of_char c div 64), of_nat (128 + of_char c mod 64)]) s)"

definition createPkceBundle :: "crypto option \<Rightarrow> js_error + PKCEBundle \<times> crypto" where
  "createPkceBundle cr =
     (case cr of
        None \<Rightarrow> Inl TypeError
      | Some C \<Rightarrow>
          (case randomString 64 C of
             (verifier, C1) \<Rightarrow>
               (case randomString 32 C1 of
                  (st, C2) \<Rightarrow>
                    (let digest = digest_SHA256 C2 (TextEncoder_encode verifier);
                         challenge = base64UrlEncode digest
                     in Inr (\<lparr>state = st, codeVerifier = verifier, codeChallenge = challenge\<rparr>, C2)))))"

text \<open>The unreserved characters, as the specification writes them: \<^verbatim>\<open>[A-Za-z0-9-._~]\<close>.\<close>

definition unreserved :: "char \<Rightarrow> bool" where
  "unreserved c =
     ((65 \<le> (of_char c :: nat) \<and> (of_char c :: nat) \<le> 90)
      \<or> (97 \<le> (of_char c :: nat) \<and> (of_char c :: nat) \<le> 122)
      \<or> (48 \<le> (of_char c :: nat) \<and> (of_char c :: nat) \<le> 57)
      \<or> c = CHR ''-'' \<or> c = CHR ''.'' \<or> c = CHR ''_'' \<or> c = CHR ''~'')"

section \<open>Session persistence (session.ts) and events (events.ts)\<close>

definition SESSION_KEY :: string where
  "SESSION_KEY = ''authkit:session''"

text \<open>The object \<open>storeSession\<close> serialises.\<close>

definition stored_session :: "jsval \<Rightarrow> jsval \<Rightarrow> int \<Rightarrow> jsval" where
  "stored_session accessToken user now =
     JObj [(''accessToken'', accessToken), (''user'', user), (''storedAt'', JNum now)]"

definition storeSession :: "platform \<Rightarrow> int \<Rightarrow> jsval \<Rightarrow> jsval \<Rightarrow> browser \<Rightarrow> browser" where
  "storeSession P now accessToken user B =
     B\<lparr>localStorage :=
         setItem SESSION_KEY (JSON_stringify P (stored_session accessToken user now)) (localStorage B)\<rparr>"

text \<open>\<open>getSession\<close> returns what \<^verbatim>\<open>JSON.parse\<close> returns, or \<^verbatim>\<open>null\<close>.\<close>

definition getSession :: "platform \<Rightarrow> browser \<Rightarrow> jsval" where
  "getSession P B =
     (case getItem (localStorage B) SESSION_KEY of
        None \<Rightarrow> JNull
      | Some raw \<Rightarrow>
          if raw = [] then JNull
          else (case JSON_parse P raw of None \<Rightarrow> JNull | Some v \<Rightarrow> v))"

definition clearSession :: "browser \<Rightarrow> browser" where
  "clearSession B = B\<lparr>localStorage := removeItem SESSION_KEY (localStorage B)\<rparr>"

text \<open>
  Listeners are code of the host page; the model records the event and runs none.
\<close>

definition dispatchAuthKitEvent :: "string \<Rightarrow> jsval \<Rightarrow> browser \<Rightarrow> browser" where
  "dispatchAuthKitEvent name detail B =
     B\<lparr>dispatched := dispatched B @ [(''authkit:'' @ name, detail)]\<rparr>"

definition console_error :: "string \<Rightarrow> browser \<Rightarrow> browser" where
  "console_error msg B = B\<lparr>console_errors := console_errors B @ [msg]\<rparr>"

section \<open>Token exchange (token.ts)\<close>

text \<open>
  What \<^verbatim>\<open>fetch\<close> does with the one request: it rejects, or it resolves with a status
  and a body.
\<close>

datatype fetch_outcome = NetworkError | Response nat string

definition response_ok :: "nat \<Rightarrow> bool" where
  "response_ok status = (200 \<le> status \<and> status \<le> 299)"

definition exchange_request :: "url \<Rightarrow> AuthKitConfig \<Rightarrow> string \<Rightarrow> jsval \<Rightarrow> request" where
  "exchange_request u config code verifier =
     \<lparr>req_url = u, req_method = ''POST'',
      req_body = [(''grant_type'', JStr ''authorization_code''), (''client_id'', JStr (clientId config)),
                  (''code'', JStr code), (''code_verifier'', verifier)]\<rparr>"

definition exchangeCode ::
  "platform \<Rightarrow> fetch_outcome \<Rightarrow> AuthKitConfig \<Rightarrow> string \<Rightarrow> jsval \<Rightarrow> browser \<Rightarrow> (js_error + jsval) \<times> browser" where
  "exchangeCode P net config code verifier B =
     (case URL_parse P ''/user_management/authenticate'' (apiBaseUrl config) of
        None \<Rightarrow> (Inl TypeError, B)
      | Some u \<Rightarrow>
          (let B' = B\<lparr>fetched := fetched B @ [exchange_request u config code verifier]\<rparr> in
           case net of
             NetworkError \<Rightarrow> (Inl FetchRejected, B')
           | Response status body \<Rightarrow>
               if \<not> response_ok status then (Inl (ExchangeFailed status), B')
               else (case JSON_parse P body of
                       None \<Rightarrow> (Inl SyntaxError, B')
                     | Some v \<Rightarrow> (Inr v, B'))))"

text \<open>\<^verbatim>\<open>x ?? undefined\<close>.\<close>

definition nullish_undefined :: "jsval \<Rightarrow> jsval" where
  "nullish_undefined v = (if v = JNull then JUndefined else v)"

text \<open>\<open>None\<close> is the \<^verbatim>\<open>TypeError\<close> of reading a property of \<^verbatim>\<open>null\<close> or \<^verbatim>\<open>undefined\<close>.\<close>

definition extractUser :: "jsval \<Rightarrow> jsval option" where
  "extractUser tokenResponse =
     Option.bind (get_prop tokenResponse ''user'') (\<lambda>u.
     Option.bind (get_prop u ''id'') (\<lambda>uid.
     Option.bind (get_prop u ''email'') (\<lambda>mail.
     Option.bind (get_prop u ''first_name'') (\<lambda>first.
     Option.bind (get_prop u ''last_name'') (\<lambda>last.
     Option.bind (get_prop u ''profile_picture_url'') (\<lambda>picture.
       Some (JObj [(''sub'', uid), (''email'', mail),
                   (''firstName'', nullish_undefined first),
                   (''lastName'', nullish_undefined last),
                   (''profilePictureUrl'', nullish_undefined picture)])))))))"

text \<open>
  \<open>decodeJwtClaims\<close> returns what \<^verbatim>\<open>JSON.parse\<close> returns, or \<^verbatim>\<open>null\<close>: the
  \<^verbatim>\<open>catch\<close> turns the exception of \<^verbatim>\<open>atob\<close> and of \<^verbatim>\<open>JSON.parse\<close> into \<^verbatim>\<open>null\<close>.
\<close>

definition decodeJwtClaims :: "platform \<Rightarrow> string \<Rightarrow> jsval" where
  "decodeJwtClaims P token =
     (let parts = split_on (CHR ''.'') token in
      if length parts \<noteq> 3 then JNull
      else
        (let payload = from_url_alphabet (parts ! 1)
         in case atob payload of
              None \<Rightarrow> JNull
            | Some json \<Rightarrow> (case JSON_parse P json of None \<Rightarrow> JNull | Some claims \<Rightarrow> claims)))"

section \<open>The orchestrator (authkit.ts)\<close>

text \<open>
  The module state: the browser, the two module variables and the value the
  \<^verbatim>\<open>ready\<close> promise is resolved with (\<open>None\<close> while it is pending). The inputs of one
  page load that the code does not control: the outcome of the request and the two
  readings of \<^verbatim>\<open>Date.now()\<close>. The page's own code does not run in between.
\<close>

record authkit =
  page :: browser
  currentUser :: jsval
  currentAccessToken :: jsval
  ready :: "jsval option"

record env =
  net :: fetch_outcome
  now_retrieve :: int
  now_store :: int

definition string_or_null :: "string option \<Rightarrow> jsval" where
  "string_or_null x = (case x of None \<Rightarrow> JNull | Some s \<Rightarrow> JStr s)"

definition replaceState_clean :: "browser \<Rightarrow> browser" where
  \<comment> \<open>\<^verbatim>\<open>cleanUrl.search = ""; history.replaceState({}, "", cleanUrl.toString())\<close>\<close>
  "replaceState_clean B = B\<lparr>location := (location B)\<lparr>searchParams := []\<rparr>\<rparr>"

definition exchange_failed :: "authkit \<Rightarrow> browser \<Rightarrow> authkit" where
  \<comment> \<open>the \<^verbatim>\<open>catch\<close> of \<open>handleCallback\<close>\<close>
  "exchange_failed S B = S\<lparr>page := clearPkce (console_error ''[AuthKit] Token exchange failed:'' B)\<rparr>"

definition handleCallback :: "platform \<Rightarrow> env \<Rightarrow> AuthKitConfig \<Rightarrow> authkit \<Rightarrow> authkit" where
  "handleCallback P E config S =
     (let stateParam = searchParams_get ''state'' (searchParams (location (page S))) in
      case searchParams_get ''code'' (searchParams (location (page S))) of
        None \<Rightarrow> S
      | Some code \<Rightarrow>
         if code = [] then S
         else
           (case retrievePkce P (now_retrieve E) (page S) of
              (None, B1) \<Rightarrow>
                S\<lparr>page := console_error
                  ''[AuthKit] Missing PKCE verifier. Was sign-in started from this browser?'' B1\<rparr>
            | (Some (pkce_state, pkce_codeVerifier), B1) \<Rightarrow>
                if pkce_state \<noteq> string_or_null stateParam
                then S\<lparr>page := clearPkce (console_error ''[AuthKit] State mismatch in callback.'' B1)\<rparr>
                else
                  (case exchangeCode P (net E) config code pkce_codeVerifier B1 of
                     (Inl err, B2) \<Rightarrow> exchange_failed S B2
                   | (Inr tokenResponse, B2) \<Rightarrow>
                       (case extractUser tokenResponse of
                          None \<Rightarrow> exchange_failed S B2
                        | Some user \<Rightarrow>
                            (case get_prop tokenResponse ''access_token'' of
                               None \<Rightarrow> exchange_failed S B2
                             | Some access_token \<Rightarrow>
                                 S\<lparr>currentUser := user, currentAccessToken := access_token,
                                   page := dispatchAuthKitEvent ''signed-in'' (JObj [(''user'', user)])
                                            (replaceState_clean
                                              (clearPkce
                                                (storeSession P (now_store E) access_token user B2)))\<rparr>)))))"

definition isCallbackUrl :: "platform \<Rightarrow> AuthKitConfig \<Rightarrow> browser \<Rightarrow> bool" where
  "isCallbackUrl P config B =
     (case URL_parse P (redirectUri config) (origin (location B)) of
        None \<Rightarrow> False
      | Some redirect \<Rightarrow>
          (pathname (location B) = pathname redirect
            \<or> pathname (location B) = pathname redirect @ ''/'')
          \<and> searchParams_has ''code'' (searchParams (location B)))"

definition resolveReady :: "authkit \<Rightarrow> authkit" where
  \<comment> \<open>\<^verbatim>\<open>resolveReady({ user: currentUser }); dispatchAuthKitEvent("ready", { user: currentUser })\<close>\<close>
  "resolveReady S =
     S\<lparr>ready := Some (JObj [(''user'', currentUser S)]),
       page := dispatchAuthKitEvent ''ready'' (JObj [(''user'', currentUser S)]) (page S)\<rparr>"

definition prop_or_undefined :: "jsval \<Rightarrow> string \<Rightarrow> jsval" where
  "prop_or_undefined v k = (case get_prop v k of None \<Rightarrow> JUndefined | Some x \<Rightarrow> x)"

definition hydrate :: "platform \<Rightarrow> browser \<Rightarrow> authkit" where
  "hydrate P B =
     (let existingSession = getSession P B in
      if truthy existingSession
      then \<lparr>page = B, currentUser = prop_or_undefined existingSession ''user'',
            currentAccessToken = prop_or_undefined existingSession ''accessToken'', ready = None\<rparr>
      else \<lparr>page = B, currentUser = JNull, currentAccessToken = JNull, ready = None\<rparr>)"

text \<open>
  One page load, from the configuration read off the script tag. \<open>None\<close>: the client
  identifier is missing and nothing is set up. \<open>handleCallback\<close> catches every exception
  of the model, so its promise is fulfilled and the \<^verbatim>\<open>then\<close> branch runs.
\<close>

definition bootstrap :: "platform \<Rightarrow> env \<Rightarrow> AuthKitConfig \<Rightarrow> browser \<Rightarrow> authkit option" where
  "bootstrap P E config B =
     (if clientId config = []
      then None
      else if autoCallback config \<and> isCallbackUrl P config B
      then Some (resolveReady (handleCallback P E config (hydrate P B)))
      else Some (resolveReady (hydrate P B)))"

section \<open>Platforms known on finitely many inputs\<close>

text \<open>
  The concrete evaluations below need a concrete platform. Each is given by the table of
  the calls the evaluation makes: every row is the answer of the real function on that
  input.
\<close>

definition URL_table :: "((string \<times> string) \<times> url) list \<Rightarrow> string \<Rightarrow> string \<Rightarrow> url option" where
  "URL_table tbl input base = map_of tbl (input, base)"

definition JSON_parse_table :: "(string \<times> jsval) list \<Rightarrow> string \<Rightarrow> jsval option" where
  "JSON_parse_table tbl raw = map_of tbl raw"

definition JSON_stringify_table :: "(jsval \<times> string) list \<Rightarrow> jsval \<Rightarrow> string" where
  "JSON_stringify_table tbl v = (case map_of tbl v of None \<Rightarrow> ''null'' | Some s \<Rightarrow> s)"

definition ToNumber_table :: "(jsval \<times> jsnumber) list \<Rightarrow> jsval \<Rightarrow> jsnumber option" where
  "ToNumber_table tbl v = (case map_of tbl v of None \<Rightarrow> None | Some n \<Rightarrow> Some n)"

definition example_config :: AuthKitConfig where
  "example_config =
     \<lparr>clientId = ''client_test123'', redirectUri = ''https://example.com/callback'',
      apiBaseUrl = ''https://api.workos.com'', devMode = False, autoCallback = True\<rparr>"

definition example_urls :: "((string \<times> string) \<times> url) list" where
  "example_urls =
     [((''/user_management/authorize'', ''https://api.workos.com''),
       \<lparr>origin = ''https://api.workos.com'', pathname = ''/user_management/authorize'', searchParams = []\<rparr>),
      ((''/user_management/authenticate'', ''https://api.workos.com''),
       \<lparr>origin = ''https://api.workos.com'', pathname = ''/user_management/authenticate'', searchParams = []\<rparr>),
      ((''https://example.com/callback'', ''https://example.com''),
       \<lparr>origin = ''https://example.com'', pathname = ''/callback'', searchParams = []\<rparr>),
      ((''https://example.com/callback/'', ''https://example.com''),
       \<lparr>origin = ''https://example.com'', pathname = ''/callback/'', searchParams = []\<rparr>)]"

text \<open>Texts in the proof slot, and what \<^verbatim>\<open>JSON.parse\<close> makes of them.\<close>

definition proof_text :: string where
  \<open>proof_text = ''{"state":"st","codeVerifier":"ver","createdAt":1000000}''\<close>

definition proof_text_no_createdAt :: string where
  \<open>proof_text_no_createdAt = ''{"state":"st","codeVerifier":"ver"}''\<close>

definition proof_text_null_createdAt :: string where
  \<open>proof_text_null_createdAt = ''{"state":"st","codeVerifier":"ver","createdAt":null}''\<close>

definition example_bundle :: PKCEBundle where
  "example_bundle = \<lparr>state = ''st'', codeVerifier = ''ver'', codeChallenge = ''ch''\<rparr>"

definition proof_text_other_state :: string where
  \<open>proof_text_other_state = ''{"state":"other","codeVerifier":"ver","createdAt":1000000}''\<close>

text \<open>A session left by an earlier sign-in, a token response, and the session written for it.\<close>

definition session_text :: string where
  \<open>session_text =
     ''{"accessToken":"tok_old","user":{"sub":"user_old","email":"old@example.com"},"storedAt":500000}''\<close>

definition old_user :: jsval where
  "old_user = JObj [(''sub'', JStr ''user_old''), (''email'', JStr ''old@example.com'')]"

definition token_body :: string where
  \<open>token_body =
     ''{"access_token":"tok_new","user":{"id":"user_01","email":"ada@example.com","first_name":"Ada","last_name":null,"email_verified":true,"profile_picture_url":null,"created_at":"2024-01-01T00:00:00Z","updated_at":"2024-01-01T00:00:00Z"}}''\<close>

definition token_response :: jsval where
  "token_response =
     JObj [(''access_token'', JStr ''tok_new''),
           (''user'', JObj [(''id'', JStr ''user_01''), (''email'', JStr ''ada@example.com''),
                            (''first_name'', JStr ''Ada''), (''last_name'', JNull),
                            (''email_verified'', JBool True), (''profile_picture_url'', JNull),
                            (''created_at'', JStr ''2024-01-01T00:00:00Z''),
                            (''updated_at'', JStr ''2024-01-01T00:00:00Z'')])]"

definition new_user :: jsval where
  "new_user =
     JObj [(''sub'', JStr ''user_01''), (''email'', JStr ''ada@example.com''),
           (''firstName'', JStr ''Ada''), (''lastName'', JUndefined),
           (''profilePictureUrl'', JUndefined)]"

definition new_session_text :: string where
  \<open>new_session_text =
     ''{"accessToken":"tok_new","user":{"sub":"user_01","email":"ada@example.com","firstName":"Ada"},"storedAt":1000100}''\<close>

definition error_body :: string where
  \<open>error_body = ''{"error":"invalid_grant"}''\<close>

definition example_json :: "(string \<times> jsval) list" where
  "example_json =
     [(proof_text,
       JObj [(''state'', JStr ''st''), (''codeVerifier'', JStr ''ver''), (''createdAt'', JNum 1000000)]),
      (proof_text_no_createdAt,
       JObj [(''state'', JStr ''st''), (''codeVerifier'', JStr ''ver'')]),
      (proof_text_null_createdAt,
       JObj [(''state'', JStr ''st''), (''codeVerifier'', JStr ''ver''), (''createdAt'', JNull)]),
      (proof_text_other_state,
       JObj [(''state'', JStr ''other''), (''codeVerifier'', JStr ''ver''), (''createdAt'', JNum 1000000)]),
      (session_text,
       JObj [(''accessToken'', JStr ''tok_old''), (''user'', old_user), (''storedAt'', JNum 500000)]),
      (token_body, token_response),
      (error_body, JObj [(''error'', JStr ''invalid_grant'')]),
      (''{}'', JObj [])]"

definition example_texts :: "(jsval \<times> string) list" where
  "example_texts =
     [(JObj [(''state'', JStr ''st''), (''codeVerifier'', JStr ''ver''), (''createdAt'', JNum 1000000)],
       proof_text),
      (JObj [(''accessToken'', JStr ''tok_new''), (''user'', new_user), (''storedAt'', JNum 1000100)],
       new_session_text)]"

definition example_platform :: platform where
  "example_platform =
     \<lparr>JSON_parse = JSON_parse_table example_json, JSON_stringify = JSON_stringify_table example_texts,
      ToNumber_other = ToNumber_table [], URL_parse = URL_table example_urls\<rparr>"

text \<open>A page at the redirect path, back from the provider, with both storage areas empty.\<close>

definition example_page :: browser where
  "example_page =
     \<lparr>sessionStorage = [], localStorage = [],
      location = \<lparr>origin = ''https://example.com'', pathname = ''/callback'',
                  searchParams = [(''code'', ''abc''), (''state'', ''st'')]\<rparr>,
      history_length = 3, dispatched = [], console_errors = [], fetched = []\<rparr>"

definition example_params :: authorize_params where
  "example_params =
     \<lparr>ap_codeChallenge = ''ch'', ap_state = ''st'', ap_screenHint = Some sign_up,
      ap_loginHint = Some ''user@example.com'', ap_organizationId = None,
      ap_invitationToken = Some []\<rparr>"

text \<open>
  A Web Crypto interface for one evaluation: the random source delivers the bytes
  \<open>3, 10, 17, ...\<close>, and the digest is known on the code verifier these bytes give.
\<close>

definition example_entropy :: "nat \<Rightarrow> 8 word" where
  "example_entropy i = of_nat (7 * i + 3)"

definition digest_table :: "(string \<times> 8 word list) list \<Rightarrow> 8 word list \<Rightarrow> 8 word list" where
  "digest_table tbl bytes = (case map_of tbl (map fromCharCode bytes) of None \<Rightarrow> [] | Some d \<Rightarrow> d)"

definition example_crypto :: crypto where
  "example_crypto =
     \<lparr>entropy = example_entropy,
      digest_SHA256 = digest_table
        [(''DKRYfmt07AHOVcjqx4.ELSZgnu18BIPWdkry5GNUbipw3-DKRYfmt07AHOVcjqx4'',
          [25, 213, 6, 208, 44, 235, 32, 46, 229, 107, 239, 204, 254, 110, 144, 244, 180, 27,
           179, 90, 204, 109, 124, 34, 112, 222, 165, 183, 130, 163, 104, 223])]\<rparr>"

text \<open>
  For claims decoding: a record with the character U+00E9, the string its UTF-8 bytes
  make when each byte is taken for a code unit, and \<^verbatim>\<open>JSON.parse\<close> on three texts.
\<close>

definition accented_text :: string where
  \<open>accented_text = ''{"n":"'' @ [CHR 0xE9] @ ''"}''\<close>

definition bytewise_text :: string where
  \<open>bytewise_text = ''{"n":"'' @ [CHR 0xC3, CHR 0xA9] @ ''"}''\<close>

definition claims_platform :: platform where
  "claims_platform =
     \<lparr>JSON_parse = JSON_parse_table
        [(''1'', JNum 1), (''{}'', JObj []),
         (bytewise_text, JObj [(''n'', JStr [CHR 0xC3, CHR 0xA9])])],
      JSON_stringify = JSON_stringify_table [], ToNumber_other = ToNumber_table [],
      URL_parse = URL_table []\<rparr>"

section \<open>Properties of URL building\<close>

lemma map_of_filter_other:
  "k' \<noteq> k \<Longrightarrow> map_of (filter (\<lambda>q. fst q \<noteq> k) ps) k' = map_of ps k'"
  by (induction ps) auto

lemma searchParams_get_set_same:
  "searchParams_get k (searchParams_set k v ps) = Some v"
  by (induction ps) (auto simp: searchParams_get_def)

lemma searchParams_get_set_other:
  "k' \<noteq> k \<Longrightarrow> searchParams_get k' (searchParams_set k v ps) = searchParams_get k' ps"
  by (induction ps) (auto simp: searchParams_get_def map_of_filter_other)

lemma get_url_set:
  "searchParams_get k' (searchParams (url_set k v u)) =
     (if k' = k then Some v else searchParams_get k' (searchParams u))"
  by (simp add: url_set_def searchParams_get_set_same searchParams_get_set_other)

lemma get_set_if_truthy:
  "searchParams_get k' (searchParams (set_if_truthy k x u)) =
     (if k' = k \<and> truthy_opt x then x else searchParams_get k' (searchParams u))"
  by (cases x) (auto simp: set_if_truthy_def get_url_set)

lemma truthy_opt_iff: "truthy_opt x \<longleftrightarrow> x \<noteq> None \<and> x \<noteq> Some []"
  by (cases x) auto

text \<open>
  C9, as the code has it. Whenever the base URL of the configuration parses (to a URL
  that, as for every path-only reference, carries no query), \<open>createAuthorizeUrl\<close> returns a
  URL on which \<^verbatim>\<open>client_id\<close>, \<^verbatim>\<open>redirect_uri\<close>, \<^verbatim>\<open>response_type=code\<close>,
  \<^verbatim>\<open>code_challenge\<close>, \<^verbatim>\<open>code_challenge_method=S256\<close> and \<^verbatim>\<open>state\<close> are set, and each
  of \<^verbatim>\<open>screen_hint\<close>, \<^verbatim>\<open>login_hint\<close>, \<^verbatim>\<open>organization_id\<close>, \<^verbatim>\<open>invitation_token\<close> is
  present, with the supplied value, exactly when the caller supplied a non-empty value;
  it is absent when the argument is missing and also when it is the empty string.
\<close>

theorem createAuthorizeUrl_params:
  assumes "URL_parse P ''/user_management/authorize'' (apiBaseUrl config) = Some u0"
    and "searchParams u0 = []"
  shows "\<exists>u. createAuthorizeUrl P config params = Some u
    \<and> origin u = origin u0 \<and> pathname u = pathname u0
    \<and> searchParams_get ''client_id'' (searchParams u) = Some (clientId config)
    \<and> searchParams_get ''redirect_uri'' (searchParams u) = Some (redirectUri config)
    \<and> searchParams_get ''response_type'' (searchParams u) = Some ''code''
    \<and> searchParams_get ''code_challenge'' (searchParams u) = Some (ap_codeChallenge params)
    \<and> searchParams_get ''code_challenge_method'' (searchParams u) = Some ''S256''
    \<and> searchParams_get ''state'' (searchParams u) = Some (ap_state params)
    \<and> searchParams_get ''screen_hint'' (searchParams u)
        = map_option screen_hint_str (ap_screenHint params)
    \<and> searchParams_get ''login_hint'' (searchParams u)
        = (if ap_loginHint params = Some [] then None else ap_loginHint params)
    \<and> searchParams_get ''organization_id'' (searchParams u)
        = (if ap_organizationId params = Some [] then None else ap_organizationId params)
    \<and> searchParams_get ''invitation_token'' (searchParams u)
        = (if ap_invitationToken params = Some [] then None else ap_invitationToken params)"
proof -
  let ?sh = "map_option screen_hint_str (ap_screenHint params)"
  have sh: "truthy_opt ?sh \<or> ?sh = None"
    by (cases "ap_screenHint params"; cases "the (ap_screenHint params)") auto
  have empty: "searchParams_get k (searchParams u0) = None" for k
    by (simp add: assms(2) searchParams_get_def)
  have fields: "origin (url_set k v u) = origin u" "pathname (url_set k v u) = pathname u"
    "origin (set_if_truthy k x u) = origin u" "pathname (set_if_truthy k x u) = pathname u"
    for k v x and u :: url
    by (simp_all add: url_set_def set_if_truthy_def split: option.split)
  show ?thesis
    using sh unfolding createAuthorizeUrl_def assms(1) option.case
    by (auto simp: get_set_if_truthy get_url_set empty fields truthy_opt_iff)
qed

theorem createAuthorizeUrl_params_witness:
  "\<exists>u. createAuthorizeUrl example_platform example_config example_params = Some u
    \<and> searchParams_get ''client_id'' (searchParams u) = Some ''client_test123''
    \<and> searchParams_get ''redirect_uri'' (searchParams u) = Some ''https://example.com/callback''
    \<and> searchParams_get ''response_type'' (searchParams u) = Some ''code''
    \<and> searchParams_get ''code_challenge'' (searchParams u) = Some ''ch''
    \<and> searchParams_get ''code_challenge_method'' (searchParams u) = Some ''S256''
    \<and> searchParams_get ''state'' (searchParams u) = Some ''st''
    \<and> searchParams_get ''screen_hint'' (searchParams u) = Some ''sign-up''
    \<and> searchParams_get ''login_hint'' (searchParams u) = Some ''user@example.com''
    \<and> searchParams_get ''organization_id'' (searchParams u) = None
    \<and> searchParams_get ''invitation_token'' (searchParams u) = None"
proof -
  let ?u0 = "\<lparr>origin = ''https://api.workos.com'', pathname = ''/user_management/authorize'',
              searchParams = []\<rparr>"
  have parse: "URL_parse example_platform ''/user_management/authorize'' (apiBaseUrl example_config)
      = Some ?u0"
    by (simp add: example_platform_def example_config_def URL_table_def example_urls_def)
  have "searchParams ?u0 = []" by simp
  from createAuthorizeUrl_params [OF parse this, of example_params]
  obtain u where u: "createAuthorizeUrl example_platform example_config example_params = Some u"
    "searchParams_get ''client_id'' (searchParams u) = Some (clientId example_config)"
    "searchParams_get ''redirect_uri'' (searchParams u) = Some (redirectUri example_config)"
    "searchParams_get ''response_type'' (searchParams u) = Some ''code''"
    "searchParams_get ''code_challenge'' (searchParams u) = Some (ap_codeChallenge example_params)"
    "searchParams_get ''code_challenge_method'' (searchParams u) = Some ''S256''"
    "searchParams_get ''state'' (searchParams u) = Some (ap_state example_params)"
    "searchParams_get ''screen_hint'' (searchParams u)
       = map_option screen_hint_str (ap_screenHint example_params)"
    "searchParams_get ''login_hint'' (searchParams u)
       = (if ap_loginHint example_params = Some [] then None else ap_loginHint example_params)"
    "searchParams_get ''organization_id'' (searchParams u)
       = (if ap_organizationId example_params = Some [] then None
          else ap_organizationId example_params)"
    "searchParams_get ''invitation_token'' (searchParams u)
       = (if ap_invitationToken example_params = Some [] then None
          else ap_invitationToken example_params)"
    by blast
  show ?thesis
    by (rule exI [of _ u]) (simp add: u, simp add: example_params_def example_config_def)
qed

text \<open>
  The claim as it is written fails where the caller supplies the empty string: the login
  hint is provided, and the URL that comes back has the six required parameters only.
\<close>

theorem createAuthorizeUrl_empty_hint_counterexample:
  "createAuthorizeUrl example_platform example_config
     \<lparr>ap_codeChallenge = ''ch'', ap_state = ''st'', ap_screenHint = None,
      ap_loginHint = Some [], ap_organizationId = None, ap_invitationToken = None\<rparr>
   = Some \<lparr>origin = ''https://api.workos.com'', pathname = ''/user_management/authorize'',
       searchParams =
         [(''client_id'', ''client_test123''), (''redirect_uri'', ''https://example.com/callback''),
          (''response_type'', ''code''), (''code_challenge'', ''ch''),
          (''code_challenge_method'', ''S256''), (''state'', ''st'')]\<rparr>"
  by (simp add: createAuthorizeUrl_def example_platform_def example_config_def URL_table_def
      example_urls_def url_set_def set_if_truthy_def)


section \<open>Properties of the proof store\<close>

lemma getItem_removeItem_same: "getItem (removeItem k st) k = None"
  by (simp add: getItem_def removeItem_def delete_conv)

lemma getItem_setItem_same: "getItem (setItem k v st) k = Some v"
  by (simp add: getItem_def setItem_def update_conv')

lemma PKCE_slot_clearPkce: "getItem (sessionStorage (clearPkce B)) PKCE_STORAGE_KEY = None"
  by (simp add: clearPkce_def getItem_removeItem_same)

text \<open>
  C4. A stored proof is a slot whose text parses to an object with a state and a code
  verifier (both truthy, as non-empty strings are) and a numeric \<^verbatim>\<open>createdAt\<close>. When
  \<^verbatim>\<open>createdAt\<close> lies more than ten minutes before \<open>now\<close>, \<open>retrievePkce\<close> returns
  \<^verbatim>\<open>null\<close> and leaves the browser with the slot removed.
\<close>

theorem retrievePkce_expired:
  assumes "getItem (sessionStorage B) PKCE_STORAGE_KEY = Some raw" and "raw \<noteq> []"
    and "JSON_parse P raw = Some (JObj kvs)"
    and "map_of kvs ''state'' = Some st" and "truthy st"
    and "map_of kvs ''codeVerifier'' = Some cv" and "truthy cv"
    and "map_of kvs ''createdAt'' = Some (JNum createdAt)"
    and "now - createdAt > PKCE_MAX_AGE_MS"
  shows "retrievePkce P now B = (None, clearPkce B)
    \<and> getItem (sessionStorage (clearPkce B)) PKCE_STORAGE_KEY = None"
  using assms by (simp add: retrievePkce_def PKCE_slot_clearPkce)

theorem retrievePkce_expired_witness:
  "retrievePkce example_platform 1660000 (example_page\<lparr>sessionStorage := [(''authkit:pkce'', proof_text)]\<rparr>)
     = (None, example_page\<lparr>sessionStorage := []\<rparr>)
   \<and> getItem (sessionStorage (example_page\<lparr>sessionStorage := []\<rparr>)) PKCE_STORAGE_KEY = None"
proof -
  let ?B = "example_page\<lparr>sessionStorage := [(''authkit:pkce'', proof_text)]\<rparr>"
  let ?kvs = "[(''state'', JStr ''st''), (''codeVerifier'', JStr ''ver''), (''createdAt'', JNum 1000000)]"
  have 1: "getItem (sessionStorage ?B) PKCE_STORAGE_KEY = Some proof_text"
    by (simp add: getItem_def PKCE_STORAGE_KEY_def)
  have 2: "proof_text \<noteq> []" by (simp add: proof_text_def)
  have 3: "JSON_parse example_platform proof_text = Some (JObj ?kvs)"
    by (simp add: example_platform_def JSON_parse_table_def example_json_def)
  have 4: "(1660000::int) - 1000000 > PKCE_MAX_AGE_MS" by (simp add: PKCE_MAX_AGE_MS_def)
  have 5: "clearPkce ?B = example_page\<lparr>sessionStorage := []\<rparr>"
    by (simp add: clearPkce_def removeItem_def PKCE_STORAGE_KEY_def)
  from retrievePkce_expired [OF 1 2 3 _ _ _ _ _ 4, of "JStr ''st''" "JStr ''ver''"]
  show ?thesis by (simp add: 5)
qed

text \<open>
  C7. A proof bundle has a state and a code verifier that are not empty (32 and 64
  characters in the data model). If the platform reads back what it serialised, then
  \<open>retrievePkce\<close> within ten minutes of \<open>storePkce\<close> returns the state and the code
  verifier of the bundle and leaves the slot as it is, so a second call within the window
  returns the same.
\<close>

theorem storePkce_retrievePkce:
  assumes "JSON_stringify P (stored_proof b t0) \<noteq> []"
    and "JSON_parse P (JSON_stringify P (stored_proof b t0)) = Some (stored_proof b t0)"
    and "state b \<noteq> []" and "codeVerifier b \<noteq> []"
    and "t1 - t0 \<le> PKCE_MAX_AGE_MS" and "t2 - t0 \<le> PKCE_MAX_AGE_MS"
  shows "retrievePkce P t1 (storePkce P t0 b B)
      = (Some (JStr (state b), JStr (codeVerifier b)), storePkce P t0 b B)
    \<and> retrievePkce P t2 (snd (retrievePkce P t1 (storePkce P t0 b B)))
      = (Some (JStr (state b), JStr (codeVerifier b)), storePkce P t0 b B)"
proof -
  have slot: "getItem (sessionStorage (storePkce P t0 b B)) PKCE_STORAGE_KEY
      = Some (JSON_stringify P (stored_proof b t0))"
    by (simp add: storePkce_def getItem_setItem_same)
  have "retrievePkce P t (storePkce P t0 b B)
      = (Some (JStr (state b), JStr (codeVerifier b)), storePkce P t0 b B)"
    if "t - t0 \<le> PKCE_MAX_AGE_MS" for t
    using that assms(1-4) unfolding retrievePkce_def slot
    by (simp add: stored_proof_def)
  then show ?thesis using assms(5,6) by simp
qed

text \<open>
  C10, as the code has it. A stored proof with a truthy state and code verifier whose
  \<^verbatim>\<open>createdAt\<close> is missing (the property read gives \<^verbatim>\<open>undefined\<close>), or holds a value
  whose numeric coercion is \<^verbatim>\<open>NaN\<close>, is returned at every time \<open>now\<close>, and the slot
  stays.
\<close>

theorem retrievePkce_no_expiry:
  assumes "getItem (sessionStorage B) PKCE_STORAGE_KEY = Some raw" and "raw \<noteq> []"
    and "JSON_parse P raw = Some (JObj kvs)"
    and "map_of kvs ''state'' = Some st" and "truthy st"
    and "map_of kvs ''codeVerifier'' = Some cv" and "truthy cv"
    and "get_prop (JObj kvs) ''createdAt'' = Some ca" and "ToNumber P ca = Some NaN"
  shows "retrievePkce P now B = (Some (st, cv), B)"
  using assms by (simp add: retrievePkce_def)


theorem storePkce_retrievePkce_witness:
  "retrievePkce example_platform 1000005 (storePkce example_platform 1000000 example_bundle example_page)
      = (Some (JStr ''st'', JStr ''ver''),
         example_page\<lparr>sessionStorage := [(''authkit:pkce'', proof_text)]\<rparr>)
    \<and> retrievePkce example_platform 1000009
        (snd (retrievePkce example_platform 1000005
               (storePkce example_platform 1000000 example_bundle example_page)))
      = (Some (JStr ''st'', JStr ''ver''),
         example_page\<lparr>sessionStorage := [(''authkit:pkce'', proof_text)]\<rparr>)"
proof -
  have ser: "JSON_stringify example_platform (stored_proof example_bundle 1000000) = proof_text"
    by (simp add: example_platform_def JSON_stringify_table_def example_texts_def
        stored_proof_def example_bundle_def)
  have 1: "JSON_stringify example_platform (stored_proof example_bundle 1000000) \<noteq> []"
    by (simp add: ser) (simp add: proof_text_def)
  have 2: "JSON_parse example_platform (JSON_stringify example_platform (stored_proof example_bundle 1000000))
      = Some (stored_proof example_bundle 1000000)"
    by (simp add: ser)
      (simp add: example_platform_def JSON_parse_table_def example_json_def
        stored_proof_def example_bundle_def)
  have 3: "state example_bundle \<noteq> []" "codeVerifier example_bundle \<noteq> []"
    by (simp_all add: example_bundle_def)
  have 4: "(1000005::int) - 1000000 \<le> PKCE_MAX_AGE_MS" "(1000009::int) - 1000000 \<le> PKCE_MAX_AGE_MS"
    by (simp_all add: PKCE_MAX_AGE_MS_def)
  have 5: "storePkce example_platform 1000000 example_bundle example_page
      = example_page\<lparr>sessionStorage := [(''authkit:pkce'', proof_text)]\<rparr>"
    by (simp add: storePkce_def ser setItem_def example_page_def PKCE_STORAGE_KEY_def)
  have 6: "state example_bundle = ''st''" "codeVerifier example_bundle = ''ver''"
    by (simp_all add: example_bundle_def)
  from storePkce_retrievePkce [OF 1 2 3 4, of example_page]
  show ?thesis unfolding 5 6 .
qed

theorem retrievePkce_no_expiry_witness:
  "retrievePkce example_platform 1700000000000
     (example_page\<lparr>sessionStorage := [(''authkit:pkce'', proof_text_no_createdAt)]\<rparr>)
   = (Some (JStr ''st'', JStr ''ver''),
      example_page\<lparr>sessionStorage := [(''authkit:pkce'', proof_text_no_createdAt)]\<rparr>)"
proof -
  let ?B = "example_page\<lparr>sessionStorage := [(''authkit:pkce'', proof_text_no_createdAt)]\<rparr>"
  let ?kvs = "[(''state'', JStr ''st''), (''codeVerifier'', JStr ''ver'')]"
  have 1: "getItem (sessionStorage ?B) PKCE_STORAGE_KEY = Some proof_text_no_createdAt"
    by (simp add: getItem_def PKCE_STORAGE_KEY_def)
  have 2: "proof_text_no_createdAt \<noteq> []" by (simp add: proof_text_no_createdAt_def)
  have 3: "JSON_parse example_platform proof_text_no_createdAt = Some (JObj ?kvs)"
    by (simp add: example_platform_def JSON_parse_table_def example_json_def
        proof_text_def proof_text_no_createdAt_def)
  have 4: "get_prop (JObj ?kvs) ''createdAt'' = Some JUndefined" by simp
  have 5: "ToNumber example_platform JUndefined = Some NaN" by simp
  show ?thesis
    by (rule retrievePkce_no_expiry [OF 1 2 3 _ _ _ _ 4 5]) simp_all
qed

text \<open>
  The claim as it is written speaks of every slot without a numeric \<^verbatim>\<open>createdAt\<close>. A
  \<^verbatim>\<open>createdAt\<close> of \<^verbatim>\<open>null\<close> is not a number, and it coerces to 0: the proof is
  expired at any time later than ten minutes after the epoch, and the slot is cleared.
\<close>

theorem retrievePkce_null_createdAt_counterexample:
  "retrievePkce example_platform 1700000000000
     (example_page\<lparr>sessionStorage := [(''authkit:pkce'', proof_text_null_createdAt)]\<rparr>)
   = (None, example_page\<lparr>sessionStorage := []\<rparr>)"
  by (simp add: retrievePkce_def getItem_def PKCE_STORAGE_KEY_def proof_text_null_createdAt_def
      proof_text_def proof_text_no_createdAt_def
      example_platform_def JSON_parse_table_def example_json_def PKCE_MAX_AGE_MS_def
      clearPkce_def removeItem_def)


section \<open>Properties of the orchestrator\<close>

text \<open>
  C6, as the code has it. The page is recognised as a callback exactly when the
  configured redirect target parses, the current path is its path, or its path followed
  by one slash, and the URL carries a \<^verbatim>\<open>code\<close> parameter. The slash is optional on
  the current path only.
\<close>

theorem isCallbackUrl_iff:
  "isCallbackUrl P config B \<longleftrightarrow>
     (\<exists>redirect. URL_parse P (redirectUri config) (origin (location B)) = Some redirect
        \<and> (pathname (location B) = pathname redirect
             \<or> pathname (location B) = pathname redirect @ ''/'')
        \<and> searchParams_has ''code'' (searchParams (location B)))"
  by (cases "URL_parse P (redirectUri config) (origin (location B))")
    (simp_all add: isCallbackUrl_def)

theorem isCallbackUrl_iff_witness:
  "isCallbackUrl example_platform example_config example_page
   \<and> isCallbackUrl example_platform example_config
       (example_page\<lparr>location := (location example_page)\<lparr>pathname := ''/callback/''\<rparr>\<rparr>)
   \<and> \<not> isCallbackUrl example_platform example_config
       (example_page\<lparr>location := (location example_page)\<lparr>searchParams := [(''state'', ''st'')]\<rparr>\<rparr>)"
proof -
  let ?r = "\<lparr>origin = ''https://example.com'', pathname = ''/callback'', searchParams = []\<rparr>"
  have p: "URL_parse example_platform (redirectUri example_config) ''https://example.com'' = Some ?r"
    by (simp add: example_platform_def example_config_def URL_table_def example_urls_def)
  show ?thesis
    by (simp add: isCallbackUrl_iff example_page_def searchParams_has_def p)
qed

text \<open>
  The claim as it is written allows the slash on either side. With the redirect path
  \<^verbatim>\<open>/callback/\<close> and the current path \<^verbatim>\<open>/callback\<close>, the two are equal up to a
  trailing slash and the URL carries a code, and the page is not recognised.
\<close>

theorem isCallbackUrl_slash_counterexample:
  "URL_parse example_platform ''https://example.com/callback/'' (origin (location example_page))
     = Some \<lparr>origin = ''https://example.com'', pathname = ''/callback/'', searchParams = []\<rparr>
   \<and> pathname (location example_page) @ ''/'' = ''/callback/''
   \<and> searchParams_has ''code'' (searchParams (location example_page))
   \<and> \<not> isCallbackUrl example_platform
         (example_config\<lparr>redirectUri := ''https://example.com/callback/''\<rparr>) example_page"
  by (simp add: isCallbackUrl_def example_platform_def example_config_def URL_table_def
      example_urls_def example_page_def searchParams_has_def)


lemma retrievePkce_Some_unchanged:
  "retrievePkce P t B = (Some p, B') \<Longrightarrow> B' = B"
  by (auto simp: retrievePkce_def split: option.splits if_splits)

lemma page_hydrate: "page (hydrate P B) = B"
  by (simp add: hydrate_def Let_def)

lemma ready_hydrate: "ready (hydrate P B) = None"
  by (simp add: hydrate_def Let_def)

text \<open>
  C3. A page load at the callback URL, with a code, a retrieved proof whose state is the
  string of the URL's \<^verbatim>\<open>state\<close> parameter, and an exchange that answers 2xx with a token
  response that has a user. Then the module variables hold the normalised user and the
  access token, the session slot holds the serialised session, the proof slot is empty,
  the current URL has lost its query (so neither \<^verbatim>\<open>code\<close> nor \<^verbatim>\<open>state\<close> is left) while
  the history has as many entries as before, one request went out, and the two events
  \<^verbatim>\<open>signed-in\<close> and \<^verbatim>\<open>ready\<close>, as the \<^verbatim>\<open>ready\<close> promise, carry that user.
\<close>

theorem callback_success:
  assumes "clientId config \<noteq> []" and "autoCallback config" and "isCallbackUrl P config B"
    and "searchParams_get ''code'' (searchParams (location B)) = Some code" and "code \<noteq> []"
    and "searchParams_get ''state'' (searchParams (location B)) = Some s"
    and "retrievePkce P (now_retrieve E) B = (Some (JStr s, verifier), B')"
    and "URL_parse P ''/user_management/authenticate'' (apiBaseUrl config) = Some endpoint"
    and "net E = Response status body" and "response_ok status"
    and "JSON_parse P body = Some tokenResponse"
    and "extractUser tokenResponse = Some user"
    and "get_prop tokenResponse ''access_token'' = Some access_token"
  shows "\<exists>S. bootstrap P E config B = Some S
    \<and> currentUser S = user \<and> currentAccessToken S = access_token
    \<and> getItem (localStorage (page S)) SESSION_KEY
        = Some (JSON_stringify P (stored_session access_token user (now_store E)))
    \<and> getItem (sessionStorage (page S)) PKCE_STORAGE_KEY = None
    \<and> location (page S) = (location B)\<lparr>searchParams := []\<rparr>
    \<and> \<not> searchParams_has ''code'' (searchParams (location (page S)))
    \<and> \<not> searchParams_has ''state'' (searchParams (location (page S)))
    \<and> history_length (page S) = history_length B
    \<and> fetched (page S) = fetched B @ [exchange_request endpoint config code verifier]
    \<and> dispatched (page S)
        = dispatched B @ [(''authkit:signed-in'', JObj [(''user'', user)]),
                          (''authkit:ready'', JObj [(''user'', user)])]
    \<and> ready S = Some (JObj [(''user'', user)])"
proof -
  have B': "B' = B" using assms(7) by (rule retrievePkce_Some_unchanged)
  have ex: "exchangeCode P (net E) config code verifier B
      = (Inr tokenResponse, B\<lparr>fetched := fetched B @ [exchange_request endpoint config code verifier]\<rparr>)"
    using assms(8-11) by (simp add: exchangeCode_def Let_def)
  let ?B2 = "B\<lparr>fetched := fetched B @ [exchange_request endpoint config code verifier]\<rparr>"
  let ?B6 = "dispatchAuthKitEvent ''signed-in'' (JObj [(''user'', user)])
              (replaceState_clean (clearPkce (storeSession P (now_store E) access_token user ?B2)))"
  have hc: "handleCallback P E config (hydrate P B)
      = (hydrate P B)\<lparr>currentUser := user, currentAccessToken := access_token, page := ?B6\<rparr>"
    using assms(4-7,12,13) unfolding B'
    by (simp add: handleCallback_def page_hydrate Let_def string_or_null_def ex)
  have boot: "bootstrap P E config B = Some (resolveReady (handleCallback P E config (hydrate P B)))"
    using assms(1-3) by (simp add: bootstrap_def)
  show ?thesis
    unfolding boot hc
    by (simp add: resolveReady_def dispatchAuthKitEvent_def replaceState_clean_def clearPkce_def
        storeSession_def getItem_removeItem_same getItem_setItem_same searchParams_has_def)
qed


theorem callback_success_witness:
  "\<exists>S. bootstrap example_platform \<lparr>net = Response 200 token_body, now_retrieve = 1000005, now_store = 1000100\<rparr>
         example_config (example_page\<lparr>sessionStorage := [(''authkit:pkce'', proof_text)]\<rparr>) = Some S
    \<and> currentUser S = new_user \<and> currentAccessToken S = JStr ''tok_new''
    \<and> getItem (localStorage (page S)) SESSION_KEY = Some new_session_text
    \<and> getItem (sessionStorage (page S)) PKCE_STORAGE_KEY = None
    \<and> location (page S)
        = \<lparr>origin = ''https://example.com'', pathname = ''/callback'', searchParams = []\<rparr>
    \<and> history_length (page S) = 3
    \<and> dispatched (page S)
        = [(''authkit:signed-in'', JObj [(''user'', new_user)]),
           (''authkit:ready'', JObj [(''user'', new_user)])]
    \<and> ready S = Some (JObj [(''user'', new_user)])"
proof -
  let ?E = "\<lparr>net = Response 200 token_body, now_retrieve = 1000005, now_store = 1000100\<rparr>"
  let ?B = "example_page\<lparr>sessionStorage := [(''authkit:pkce'', proof_text)]\<rparr>"
  let ?endpoint = "\<lparr>origin = ''https://api.workos.com'', pathname = ''/user_management/authenticate'',
                    searchParams = []\<rparr>"
  note texts = proof_text_def proof_text_no_createdAt_def proof_text_null_createdAt_def
    proof_text_other_state_def session_text_def token_body_def error_body_def new_session_text_def
  note plat = example_platform_def JSON_parse_table_def JSON_stringify_table_def URL_table_def
    example_urls_def example_json_def example_texts_def
  have 1: "clientId example_config \<noteq> []" "autoCallback example_config"
    by (simp_all add: example_config_def)
  have 3: "isCallbackUrl example_platform example_config ?B"
    by (simp add: isCallbackUrl_def plat example_config_def example_page_def searchParams_has_def)
  have 4: "searchParams_get ''code'' (searchParams (location ?B)) = Some ''abc''" "''abc'' \<noteq> []"
    "searchParams_get ''state'' (searchParams (location ?B)) = Some ''st''"
    by (simp_all add: example_page_def searchParams_get_def)
  have 7: "retrievePkce example_platform (now_retrieve ?E) ?B = (Some (JStr ''st'', JStr ''ver''), ?B)"
    by (simp add: retrievePkce_def getItem_def PKCE_STORAGE_KEY_def plat texts PKCE_MAX_AGE_MS_def)
  have 8: "URL_parse example_platform ''/user_management/authenticate'' (apiBaseUrl example_config)
      = Some ?endpoint"
    by (simp add: plat example_config_def)
  have 9: "net ?E = Response 200 token_body" "response_ok 200"
    by (simp_all add: response_ok_def)
  have 11: "JSON_parse example_platform token_body = Some token_response"
    by (simp add: plat texts)
  have 12: "extractUser token_response = Some new_user"
    by (simp add: extractUser_def token_response_def new_user_def nullish_undefined_def)
  have 13: "get_prop token_response ''access_token'' = Some (JStr ''tok_new'')"
    by (simp add: token_response_def)
  have ser: "JSON_stringify example_platform (stored_session (JStr ''tok_new'') new_user 1000100)
      = new_session_text"
    by (simp add: plat stored_session_def new_user_def)
  from callback_success [OF 1 3 4 7 8 9 11 12 13]
  obtain S where S: "bootstrap example_platform ?E example_config ?B = Some S"
    "currentUser S = new_user" "currentAccessToken S = JStr ''tok_new''"
    "getItem (localStorage (page S)) SESSION_KEY
      = Some (JSON_stringify example_platform (stored_session (JStr ''tok_new'') new_user (now_store ?E)))"
    "getItem (sessionStorage (page S)) PKCE_STORAGE_KEY = None"
    "location (page S) = (location ?B)\<lparr>searchParams := []\<rparr>"
    "history_length (page S) = history_length ?B"
    "dispatched (page S)
      = dispatched ?B @ [(''authkit:signed-in'', JObj [(''user'', new_user)]),
                         (''authkit:ready'', JObj [(''user'', new_user)])]"
    "ready S = Some (JObj [(''user'', new_user)])"
    by blast
  show ?thesis
    by (rule exI [of _ S]) (simp add: S ser, simp add: example_page_def)
qed

text \<open>
  What the code does when the retrieved state differs from the URL's, and when the
  exchange fails: the proof slot is cleared (and, on a mismatch, no request goes out), and
  \<^verbatim>\<open>ready\<close> carries the user the module had before, which is the user of a stored
  session when there is one.
\<close>

lemma callback_state_mismatch:
  assumes "clientId config \<noteq> []" and "autoCallback config" and "isCallbackUrl P config B"
    and "searchParams_get ''code'' (searchParams (location B)) = Some code" and "code \<noteq> []"
    and "retrievePkce P (now_retrieve E) B = (Some (stored_state, verifier), B')"
    and "stored_state \<noteq> string_or_null (searchParams_get ''state'' (searchParams (location B)))"
  shows "\<exists>S. bootstrap P E config B = Some S
    \<and> getItem (sessionStorage (page S)) PKCE_STORAGE_KEY = None
    \<and> fetched (page S) = fetched B
    \<and> currentUser S = currentUser (hydrate P B)
    \<and> ready S = Some (JObj [(''user'', currentUser (hydrate P B))])"
proof -
  have hc: "handleCallback P E config (hydrate P B)
      = (hydrate P B)\<lparr>page := clearPkce (console_error ''[AuthKit] State mismatch in callback.'' B')\<rparr>"
    using assms(4-7) by (simp add: handleCallback_def page_hydrate Let_def)
  have B': "B' = B" using assms(6) by (rule retrievePkce_Some_unchanged)
  have boot: "bootstrap P E config B = Some (resolveReady (handleCallback P E config (hydrate P B)))"
    using assms(1-3) by (simp add: bootstrap_def)
  show ?thesis
    unfolding boot hc B'
    by (simp add: resolveReady_def dispatchAuthKitEvent_def clearPkce_def console_error_def
        getItem_removeItem_same)
qed

lemma callback_exchange_failure:
  assumes "clientId config \<noteq> []" and "autoCallback config" and "isCallbackUrl P config B"
    and "searchParams_get ''code'' (searchParams (location B)) = Some code" and "code \<noteq> []"
    and "retrievePkce P (now_retrieve E) B = (Some (stored_state, verifier), B')"
    and "stored_state = string_or_null (searchParams_get ''state'' (searchParams (location B)))"
    and "net E = NetworkError \<or> (\<exists>status body. net E = Response status body \<and> \<not> response_ok status)"
  shows "\<exists>S. bootstrap P E config B = Some S
    \<and> getItem (sessionStorage (page S)) PKCE_STORAGE_KEY = None
    \<and> currentUser S = currentUser (hydrate P B)
    \<and> ready S = Some (JObj [(''user'', currentUser (hydrate P B))])"
proof -
  have B': "B' = B" using assms(6) by (rule retrievePkce_Some_unchanged)
  have "\<exists>err B2. exchangeCode P (net E) config code verifier B = (Inl err, B2)"
    using assms(8)
    by (cases "URL_parse P ''/user_management/authenticate'' (apiBaseUrl config)")
      (auto simp: exchangeCode_def Let_def)
  then obtain err B2 where ex: "exchangeCode P (net E) config code verifier B = (Inl err, B2)"
    by blast
  have hc: "handleCallback P E config (hydrate P B) = exchange_failed (hydrate P B) B2"
    using assms(4-7) unfolding B'
    by (simp add: handleCallback_def page_hydrate Let_def ex)
  have boot: "bootstrap P E config B = Some (resolveReady (handleCallback P E config (hydrate P B)))"
    using assms(1-3) by (simp add: bootstrap_def)
  show ?thesis
    unfolding boot hc
    by (simp add: resolveReady_def dispatchAuthKitEvent_def clearPkce_def console_error_def
        exchange_failed_def getItem_removeItem_same)
qed

text \<open>
  C1. The page load at a callback URL whose \<^verbatim>\<open>state\<close> is \<^verbatim>\<open>st\<close>, with a proof stored
  for the state \<^verbatim>\<open>other\<close> and the session of an earlier sign-in in the session slot. The
  proof slot is cleared and no request is made; \<^verbatim>\<open>ready\<close> is resolved, and the event
  dispatched, with the user of the earlier session, not with \<^verbatim>\<open>null\<close>.
\<close>

theorem state_mismatch_with_prior_session:
  "bootstrap example_platform \<lparr>net = NetworkError, now_retrieve = 1000005, now_store = 1000100\<rparr>
     example_config
     (example_page\<lparr>sessionStorage := [(''authkit:pkce'', proof_text_other_state)],
                   localStorage := [(''authkit:session'', session_text)]\<rparr>)
   = Some \<lparr>page = example_page
              \<lparr>sessionStorage := [],
               localStorage := [(''authkit:session'', session_text)],
               dispatched := [(''authkit:ready'', JObj [(''user'', old_user)])],
               console_errors := [''[AuthKit] State mismatch in callback.'']\<rparr>,
           currentUser = old_user, currentAccessToken = JStr ''tok_old'',
           ready = Some (JObj [(''user'', old_user)])\<rparr>"
  by (simp add: bootstrap_def isCallbackUrl_def hydrate_def getSession_def handleCallback_def
      retrievePkce_def resolveReady_def dispatchAuthKitEvent_def console_error_def clearPkce_def
      getItem_def removeItem_def SESSION_KEY_def PKCE_STORAGE_KEY_def PKCE_MAX_AGE_MS_def
      prop_or_undefined_def string_or_null_def searchParams_get_def searchParams_has_def
      example_platform_def JSON_parse_table_def URL_table_def example_urls_def example_json_def
      example_config_def example_page_def Let_def
      proof_text_def proof_text_no_createdAt_def proof_text_null_createdAt_def
      proof_text_other_state_def session_text_def token_body_def error_body_def)

text \<open>
  C5. The same page load with a matching proof and an exchange answered with status 400.
  The proof slot is cleared; \<^verbatim>\<open>ready\<close> is resolved, and the event dispatched, with the
  user of the earlier session, not with \<^verbatim>\<open>null\<close>.
\<close>

theorem exchange_failure_with_prior_session:
  "bootstrap example_platform \<lparr>net = Response 400 error_body, now_retrieve = 1000005, now_store = 1000100\<rparr>
     example_config
     (example_page\<lparr>sessionStorage := [(''authkit:pkce'', proof_text)],
                   localStorage := [(''authkit:session'', session_text)]\<rparr>)
   = Some \<lparr>page = example_page
              \<lparr>sessionStorage := [],
               localStorage := [(''authkit:session'', session_text)],
               dispatched := [(''authkit:ready'', JObj [(''user'', old_user)])],
               console_errors := [''[AuthKit] Token exchange failed:''],
               fetched :=
                 [exchange_request
                    \<lparr>origin = ''https://api.workos.com'', pathname = ''/user_management/authenticate'',
                     searchParams = []\<rparr>
                    example_config ''abc'' (JStr ''ver'')]\<rparr>,
           currentUser = old_user, currentAccessToken = JStr ''tok_old'',
           ready = Some (JObj [(''user'', old_user)])\<rparr>"
  by (simp add: bootstrap_def isCallbackUrl_def hydrate_def getSession_def handleCallback_def
      retrievePkce_def resolveReady_def dispatchAuthKitEvent_def console_error_def clearPkce_def
      exchangeCode_def exchange_failed_def response_ok_def
      getItem_def removeItem_def SESSION_KEY_def PKCE_STORAGE_KEY_def PKCE_MAX_AGE_MS_def
      prop_or_undefined_def string_or_null_def searchParams_get_def searchParams_has_def
      example_platform_def JSON_parse_table_def URL_table_def example_urls_def example_json_def
      example_config_def example_page_def Let_def
      proof_text_def proof_text_no_createdAt_def proof_text_null_createdAt_def
      proof_text_other_state_def session_text_def token_body_def error_body_def)

section \<open>Properties of the encodings\<close>

lemma sextets_lt_64: "list_all (\<lambda>b. b < 256) bs \<Longrightarrow> list_all (\<lambda>w. w < 64) (sextets bs)"
  by (induction bs rule: sextets.induct) auto

lemma octets_sextets: "list_all (\<lambda>b. b < 256) bs \<Longrightarrow> octets (sextets bs) = bs"
  by (induction bs rule: sextets.induct) auto

lemma length_sextets_mod4: "length (sextets bs) mod 4 \<noteq> 1"
  by (induction bs rule: sextets.induct) auto

lemma to_url_alphabet: "map to_url_char base64_alphabet = base64url_alphabet"
  by (simp add: base64_alphabet_def base64url_alphabet_def to_url_char_def)

lemma from_url_alphabet_table: "map from_url_char base64url_alphabet = base64_alphabet"
  by (simp add: base64_alphabet_def base64url_alphabet_def from_url_char_def)

lemma base64_index_alphabet: "map base64_index base64_alphabet = map Some [0..<64]"
  by (simp add: base64_alphabet_def base64_index_def upt_rec numeral_eq_Suc)

lemma base64_alphabet_plain: "list_all (\<lambda>c. c \<noteq> CHR ''='' \<and> \<not> ascii_whitespace c) base64_alphabet"
  by (simp add: base64_alphabet_def ascii_whitespace_def)

lemma base64url_alphabet_plain: "list_all (\<lambda>c. c \<noteq> CHR ''='' \<and> c \<noteq> CHR ''.'') base64url_alphabet"
  by (simp add: base64url_alphabet_def)

lemma length_alphabets: "length base64_alphabet = 64" "length base64url_alphabet = 64"
  by (simp_all add: base64_alphabet_def base64url_alphabet_def)

lemma base64_chars:
  assumes "n < 64"
  shows "to_url_char (base64_char n) = base64url_char n"
    and "from_url_char (base64url_char n) = base64_char n"
    and "base64_index (base64_char n) = Some n"
    and "base64_char n \<noteq> CHR ''=''" and "\<not> ascii_whitespace (base64_char n)"
    and "base64url_char n \<noteq> CHR ''=''" and "base64url_char n \<noteq> CHR ''.''"
proof -
  note n = assms
  show "to_url_char (base64_char n) = base64url_char n"
    using nth_map [of n base64_alphabet to_url_char] n
    by (simp add: to_url_alphabet length_alphabets base64_char_def base64url_char_def)
  show "from_url_char (base64url_char n) = base64_char n"
    using nth_map [of n base64url_alphabet from_url_char] n
    by (simp add: from_url_alphabet_table length_alphabets base64_char_def base64url_char_def)
  show "base64_index (base64_char n) = Some n"
    using nth_map [of n base64_alphabet base64_index] n
    by (simp add: base64_index_alphabet length_alphabets base64_char_def)
  have "base64_char n \<in> set base64_alphabet" "base64url_char n \<in> set base64url_alphabet"
    using n by (simp_all add: base64_char_def base64url_char_def length_alphabets)
  then show "base64_char n \<noteq> CHR ''=''" "\<not> ascii_whitespace (base64_char n)"
    "base64url_char n \<noteq> CHR ''=''" "base64url_char n \<noteq> CHR ''.''"
    using base64_alphabet_plain base64url_alphabet_plain by (auto simp: list_all_iff)
qed

lemma replace_char_twice_to_url:
  "replace_char (CHR ''/'') (CHR ''_'') (replace_char (CHR ''+'') (CHR ''-'') s) = map to_url_char s"
  by (simp add: replace_char_def to_url_char_def)

lemma from_url_alphabet_map: "from_url_alphabet s = map from_url_char s"
  by (simp add: from_url_alphabet_def replace_char_def from_url_char_def)

lemma map_to_url_base64:
  "list_all (\<lambda>w. w < 64) ws \<Longrightarrow> map to_url_char (map base64_char ws) = map base64url_char ws"
  by (induction ws) (simp_all add: base64_chars)

lemma map_from_url_base64url:
  "list_all (\<lambda>w. w < 64) ws \<Longrightarrow> map from_url_char (map base64url_char ws) = map base64_char ws"
  by (induction ws) (simp_all add: base64_chars)

lemma those_base64_index:
  "list_all (\<lambda>w. w < 64) ws \<Longrightarrow> those (map base64_index (map base64_char ws)) = Some ws"
  by (induction ws) (simp_all add: base64_chars)

lemma no_equals_base64:
  "list_all (\<lambda>w. w < 64) ws \<Longrightarrow> CHR ''='' \<notin> set (map base64_char ws)"
  by (induction ws) (simp_all add: base64_chars(4) [THEN not_sym])

lemma no_equals_base64url:
  "list_all (\<lambda>w. w < 64) ws \<Longrightarrow> CHR ''='' \<notin> set (map base64url_char ws)"
  by (induction ws) (simp_all add: base64_chars(6) [THEN not_sym])

lemma no_dot_base64url:
  "list_all (\<lambda>w. w < 64) ws \<Longrightarrow> CHR ''.'' \<notin> set (map base64url_char ws)"
  by (induction ws) (simp_all add: base64_chars(7) [THEN not_sym])

lemma no_whitespace_base64:
  "list_all (\<lambda>w. w < 64) ws \<Longrightarrow>
     filter (\<lambda>c. \<not> ascii_whitespace c) (map base64_char ws) = map base64_char ws"
  by (induction ws) (simp_all add: base64_chars)

lemma strip_trailing_equals_append:
  "CHR ''='' \<notin> set s \<Longrightarrow> strip_trailing_equals (s @ replicate k (CHR ''='')) = s"
proof -
  assume a: "CHR ''='' \<notin> set s"
  have "s = [] \<or> last s \<noteq> CHR ''=''"
    using a by (metis last_in_set)
  then have "dropWhile (\<lambda>c. c = CHR ''='') (replicate k (CHR ''='') @ rev s) = rev s"
    by (induction k) (simp_all add: dropWhile_eq_self_iff hd_rev)
  then show ?thesis by (simp add: strip_trailing_equals_def)
qed

lemma remove_padding_id: "CHR ''='' \<notin> set s \<Longrightarrow> remove_padding s = s"
proof (cases "rev s")
  case Nil
  then show ?thesis by simp
next
  case (Cons c1 r)
  assume a: "CHR ''='' \<notin> set s"
  have "c1 \<in> set s" using Cons by (metis list.set_intros(1) set_rev)
  with a have "c1 \<noteq> CHR ''=''" by auto
  with Cons show ?thesis by (cases r) simp_all
qed

lemma unat_bytes_lt_256: "list_all (\<lambda>b. b < 256) (map unat (bytes :: 8 word list))"
proof -
  have "unat b < 256" for b :: "8 word"
    using unsigned_less [of b, where ?'a = nat] by simp
  then show ?thesis by (simp add: list_all_iff)
qed

lemma of_char_fromCharCode: "map of_char (map fromCharCode bytes) = map unat bytes"
proof -
  have "unat b < 256" for b :: "8 word"
    using unsigned_less [of b, where ?'a = nat] by simp
  then show ?thesis by (simp add: fromCharCode_def)
qed

lemma btoa_fromCharCode:
  "btoa (map fromCharCode bytes) = map base64_char (sextets (map unat bytes))
     @ replicate ((3 - length bytes mod 3) mod 3) (CHR ''='')"
  unfolding btoa_def of_char_fromCharCode by simp

text \<open>
  What \<open>base64UrlEncode\<close> computes through \<^verbatim>\<open>btoa\<close> and three replacements is the
  base64url encoding without padding.
\<close>

theorem base64UrlEncode_is_base64url: "base64UrlEncode bytes = base64url_nopad bytes"
proof -
  let ?ws = "sextets (map unat bytes)"
  have ws: "list_all (\<lambda>w. w < 64) ?ws"
    by (rule sextets_lt_64) (rule unat_bytes_lt_256)
  have eq: "to_url_char (CHR ''='') = CHR ''=''" by (simp add: to_url_char_def)
  have "map to_url_char (map base64_char ?ws @ replicate k (CHR ''=''))
      = map base64url_char ?ws @ replicate k (CHR ''='')" for k
    unfolding map_append map_to_url_base64 [OF ws] by (simp add: eq)
  then show ?thesis
    unfolding base64UrlEncode_def Let_def replace_char_twice_to_url btoa_fromCharCode
      base64url_nopad_def
    by (simp only: strip_trailing_equals_append [OF no_equals_base64url [OF ws]])
qed

text \<open>
  \<^verbatim>\<open>atob\<close> after the two replacements of \<open>decodeJwtClaims\<close> reads an unpadded base64url
  text back to the bytes it encodes.
\<close>

lemma atob_base64url:
  "atob (from_url_alphabet (base64url_nopad bytes)) = Some (map fromCharCode bytes)"
proof -
  let ?ws = "sextets (map unat bytes)"
  have ws: "list_all (\<lambda>w. w < 64) ?ws"
    by (rule sextets_lt_64) (rule unat_bytes_lt_256)
  have 1: "from_url_alphabet (base64url_nopad bytes) = map base64_char ?ws"
    unfolding from_url_alphabet_map base64url_nopad_def by (rule map_from_url_base64url [OF ws])
  have 2: "remove_padding (map base64_char ?ws) = map base64_char ?ws"
    by (rule remove_padding_id) (rule no_equals_base64 [OF ws])
  have 3: "length (map base64_char ?ws) mod 4 \<noteq> 1"
    using length_sextets_mod4 [of "map unat bytes"] by simp
  have 4: "octets ?ws = map unat bytes"
    by (rule octets_sextets) (rule unat_bytes_lt_256)
  show ?thesis
    unfolding atob_def 1 no_whitespace_base64 [OF ws] Let_def 2 if_cancel
      those_base64_index [OF ws]
    using 3 by (simp add: 4 fromCharCode_def)
qed

section \<open>Properties of bundle creation\<close>

lemma randomString_chars_unreserved: "list_all unreserved randomString_chars"
  by (simp add: randomString_chars_def unreserved_def)

lemma randomString_shape:
  shows "\<exists>C'. randomString len C = (fst (randomString len C), C') \<and> digest_SHA256 C' = digest_SHA256 C"
  and "length (fst (randomString len C)) = len"
  and "list_all unreserved (fst (randomString len C))"
proof -
  show "\<exists>C'. randomString len C = (fst (randomString len C), C') \<and> digest_SHA256 C' = digest_SHA256 C"
    by (simp add: randomString_def getRandomValues_def)
  show "length (fst (randomString len C)) = len"
    by (simp add: randomString_def getRandomValues_def)
  have "randomString_chars ! (k mod length randomString_chars) \<in> set randomString_chars" for k
    by (rule nth_mem) (simp add: randomString_chars_def)
  then have "unreserved (randomString_chars ! (k mod length randomString_chars))" for k
    using randomString_chars_unreserved by (simp add: list_all_iff)
  then show "list_all unreserved (fst (randomString len C))"
    by (simp add: randomString_def getRandomValues_def list_all_iff)
qed

lemma unreserved_ascii: "unreserved c \<Longrightarrow> (of_char c :: nat) < 128"
  by (auto simp: unreserved_def)

lemma TextEncoder_encode_ascii:
  "list_all unreserved s \<Longrightarrow> TextEncoder_encode s = binary_bytes s"
  by (induction s) (simp_all add: TextEncoder_encode_def binary_bytes_def unreserved_ascii)

text \<open>
  C2. Where the Web Crypto interface is present, \<open>createPkceBundle\<close> returns a bundle,
  whatever bytes the random source delivers and whatever the digest function is: its code
  verifier has 64 characters and its state 32, all of them unreserved characters, and its
  code challenge is the unpadded base64url encoding of the SHA-256 digest of the bytes of
  the code verifier (one byte for each character, which is also their UTF-8 encoding).
\<close>

theorem createPkceBundle_bundle:
  "\<exists>bundle C'. createPkceBundle (Some C) = Inr (bundle, C')
     \<and> length (codeVerifier bundle) = 64 \<and> length (state bundle) = 32
     \<and> list_all unreserved (codeVerifier bundle) \<and> list_all unreserved (state bundle)
     \<and> codeChallenge bundle
         = base64url_nopad (digest_SHA256 C (binary_bytes (codeVerifier bundle)))"
proof -
  obtain v C1 where r1: "randomString 64 C = (v, C1)"
    by (cases "randomString 64 C")
  obtain st C2 where r2: "randomString 32 C1 = (st, C2)"
    by (cases "randomString 32 C1")
  have d: "digest_SHA256 C1 = digest_SHA256 C" "digest_SHA256 C2 = digest_SHA256 C1"
    using randomString_shape(1) [of 64 C] randomString_shape(1) [of 32 C1]
    by (simp_all add: r1 r2)
  have v: "length v = 64" "list_all unreserved v"
    using randomString_shape(2,3) [of 64 C] by (simp_all add: r1)
  have st: "length st = 32" "list_all unreserved st"
    using randomString_shape(2,3) [of 32 C1] by (simp_all add: r2)
  let ?b = "\<lparr>state = st, codeVerifier = v,
             codeChallenge = base64UrlEncode (digest_SHA256 C2 (TextEncoder_encode v))\<rparr>"
  have run: "createPkceBundle (Some C) = Inr (?b, C2)"
    by (simp add: createPkceBundle_def r1 r2 Let_def)
  have ch: "codeChallenge ?b = base64url_nopad (digest_SHA256 C (binary_bytes v))"
    by (simp add: base64UrlEncode_is_base64url TextEncoder_encode_ascii [OF v(2)] d)
  show ?thesis
    using run v st ch by (intro exI [of _ ?b] exI [of _ C2]) simp
qed

text \<open>
  The bundles \<open>createPkceBundle\<close> returns are the ones \<open>storePkce\<close> is called with; their
  state and code verifier are not empty, which is what the round trip of the proof store
  asks of a bundle.
\<close>

lemma createPkceBundle_nonempty:
  assumes "createPkceBundle cr = Inr (b, C')"
  shows "state b \<noteq> [] \<and> codeVerifier b \<noteq> []"
proof (cases cr)
  case None
  with assms show ?thesis by (simp add: createPkceBundle_def)
next
  case (Some C)
  obtain v C1 where r1: "randomString 64 C = (v, C1)"
    by (cases "randomString 64 C")
  obtain st C2 where r2: "randomString 32 C1 = (st, C2)"
    by (cases "randomString 32 C1")
  have "length v = 64" "length st = 32"
    using randomString_shape(2) [of 64 C] randomString_shape(2) [of 32 C1]
    by (simp_all add: r1 r2)
  then have "v \<noteq> []" "st \<noteq> []" by auto
  moreover have "state b = st" "codeVerifier b = v"
    using assms Some by (auto simp: createPkceBundle_def r1 r2 Let_def)
  ultimately show ?thesis by simp
qed

text \<open>
  The encoding step on the test vector of RFC 7636, Appendix B: the 32 octets of the
  digest given there, and the code challenge given there.
\<close>

lemma base64UrlEncode_RFC7636:
  "base64UrlEncode [19, 211, 30, 150, 26, 26, 216, 236, 47, 22, 177, 12, 76, 152, 46, 8, 118,
                    168, 120, 173, 109, 241, 68, 86, 110, 225, 137, 74, 203, 112, 249, 195]
   = ''E9Melhoa2OwvFrEMTJguCHaoeK1t8URWbuGJSstw-cM''"
  by (simp add: base64UrlEncode_is_base64url base64url_nopad_def base64url_char_def
      base64url_alphabet_def)

text \<open>
  One run, on the interface above: the bundle for the random bytes \<open>3, 10, 17, ...\<close>,
  with the SHA-256 digest of its code verifier.
\<close>

lemma createPkceBundle_example:
  "map_sum id fst (createPkceBundle (Some example_crypto))
   = Inr \<lparr>state = ''.ELSZgnu1CJQXelsz6~GNUbipw3-DKRY'',
           codeVerifier = ''DKRYfmt07AHOVcjqx4.ELSZgnu18BIPWdkry5GNUbipw3-DKRYfmt07AHOVcjqx4'',
           codeChallenge = ''GdUG0CzrIC7la-_M_m6Q9LQbs1rMbXwicN6lt4KjaN8''\<rparr>"
  by (simp add: createPkceBundle_def randomString_def getRandomValues_def example_crypto_def
      example_entropy_def randomString_chars_def upt_rec [of _ "numeral _"] unat_of_nat
      TextEncoder_encode_def digest_table_def fromCharCode_def char_of_eq_iff
      base64UrlEncode_is_base64url base64url_nopad_def base64url_char_def base64url_alphabet_def)

section \<open>Properties of claims decoding\<close>

lemma split_on_nonempty: "split_on sep s \<noteq> []"
  by (induction s) (auto split: list.splits)


lemma split_on_no_sep: "sep \<notin> set s \<Longrightarrow> split_on sep s = [s]"
  by (induction s) auto

lemma split_on_append:
  "sep \<notin> set a \<Longrightarrow> split_on sep (a @ sep # rest) = a # split_on sep rest"
  by (induction a) (auto split: list.splits simp: split_on_nonempty)

lemma split_three:
  assumes "CHR ''.'' \<notin> set h" and "CHR ''.'' \<notin> set p" and "CHR ''.'' \<notin> set sg"
  shows "split_on (CHR ''.'') (h @ ''.'' @ p @ ''.'' @ sg) = [h, p, sg]"
  using assms by (simp add: split_on_append split_on_no_sep)



lemma decodeJwtClaims_three:
  assumes "CHR ''.'' \<notin> set h" and "CHR ''.'' \<notin> set p" and "CHR ''.'' \<notin> set sg"
  shows "decodeJwtClaims P (h @ ''.'' @ p @ ''.'' @ sg) =
     (case atob (from_url_alphabet p) of
        None \<Rightarrow> JNull
      | Some json \<Rightarrow> (case JSON_parse P json of None \<Rightarrow> JNull | Some claims \<Rightarrow> claims))"
  unfolding decodeJwtClaims_def split_three [OF assms]
  by (simp add: Let_def)











lemma no_dot_base64url_nopad: "CHR ''.'' \<notin> set (base64url_nopad bytes)"
proof -
  have "list_all (\<lambda>w. w < 64) (sextets (map unat bytes))"
    by (rule sextets_lt_64) (rule unat_bytes_lt_256)
  then show ?thesis
    unfolding base64url_nopad_def by (rule no_dot_base64url)
qed

lemma decodeJwtClaims_base64url:
  assumes "CHR ''.'' \<notin> set header" and "CHR ''.'' \<notin> set signature"
  shows "decodeJwtClaims P (header @ ''.'' @ base64url_nopad bytes @ ''.'' @ signature)
    = (case JSON_parse P (map fromCharCode bytes) of None \<Rightarrow> JNull | Some claims \<Rightarrow> claims)"
  unfolding decodeJwtClaims_three [OF assms(1) no_dot_base64url_nopad assms(2)] atob_base64url
  by simp




text \<open>
  Two more tokens. \<^verbatim>\<open>atob\<close> skips whitespace, so a middle segment with spaces is
  decoded. And the bytes a segment encodes are not read as UTF-8: the segment below is the
  encoding of the record whose field is the character U+00E9, and the field comes back as
  the two code units of its UTF-8 bytes.
\<close>

lemma decodeJwtClaims_whitespace_example:
  "decodeJwtClaims claims_platform ''h. e3 0.s'' = JObj []"
  by (simp add: decodeJwtClaims_def from_url_alphabet_def replace_char_def atob_def
      ascii_whitespace_def base64_index_def base64_alphabet_def Let_def
      claims_platform_def JSON_parse_table_def char_of_eq_iff)

lemma decodeJwtClaims_utf8_example:
  "base64url_nopad (TextEncoder_encode accented_text) = ''eyJuIjoiw6kifQ''
   \<and> decodeJwtClaims claims_platform ''h.eyJuIjoiw6kifQ.s''
       = JObj [(''n'', JStr [CHR 0xC3, CHR 0xA9])]"
proof -
  have e: "base64url_nopad (TextEncoder_encode accented_text) = ''eyJuIjoiw6kifQ''"
    by (simp add: base64url_nopad_def TextEncoder_encode_def base64url_char_def
        base64url_alphabet_def accented_text_def)
  have b: "map fromCharCode (TextEncoder_encode accented_text) = bytewise_text"
    by (simp add: TextEncoder_encode_def accented_text_def bytewise_text_def fromCharCode_def
        char_of_eq_iff)
  have p: "JSON_parse claims_platform bytewise_text = Some (JObj [(''n'', JStr [CHR 0xC3, CHR 0xA9])])"
    by (simp add: claims_platform_def JSON_parse_table_def bytewise_text_def)
  have "decodeJwtClaims claims_platform
      (''h'' @ ''.'' @ base64url_nopad (TextEncoder_encode accented_text) @ ''.'' @ ''s'')
      = JObj [(''n'', JStr [CHR 0xC3, CHR 0xA9])]"
    by (subst decodeJwtClaims_base64url) (simp_all add: b p)
  then show ?thesis by (simp add: e)
qed

text \<open>The token of the test for invalid base64: \<^verbatim>\<open>atob\<close> rejects the exclamation mark.\<close>

lemma decodeJwtClaims_invalid_base64: "decodeJwtClaims P ''h.!!!invalid!!!.s'' = JNull"
  by (simp add: decodeJwtClaims_def from_url_alphabet_def replace_char_def atob_def
      ascii_whitespace_def base64_index_def base64_alphabet_def Let_def)

end
